theory Spec2Isabelle
  imports Complex_Main "HOL-Library.Char_ord" "HOL-Library.List_Lexorder"
begin

section \<open>Python values and exceptions\<close>

text \<open>
  Exceptions of the Python source are values. \<open>SystemExit\<close> is raised by \<open>quit()\<close>;
  it derives from \<open>BaseException\<close>, not from \<open>Exception\<close>, so a handler
  \<open>except Exception\<close> does not catch it.
\<close>

datatype py_error =
  KeyError | ValueError | TypeError | AttributeError | ZeroDivisionError | IntegrityError |
  RequestException | SystemExit

definition is_Exception :: "py_error \<Rightarrow> bool" where
  "is_Exception e = (e \<noteq> SystemExit)"

text \<open>
  Floats are modelled as exact rationals: comparisons and the rounding below are those of
  the mathematical values. The parser covers the plain decimal notation
  \<open>[+-]digits[.digits]\<close>, which is the notation of every stat line and score the
  pipeline stores; exponents, \<open>inf\<close> and \<open>nan\<close> are outside the embedding.
\<close>

definition is_digit :: "char \<Rightarrow> bool" where
  "is_digit c = (48 \<le> (of_char c :: nat) \<and> (of_char c :: nat) \<le> 57)"

definition digit_val :: "char \<Rightarrow> nat" where
  "digit_val c = (of_char c :: nat) - 48"

definition digits_val :: "string \<Rightarrow> nat" where
  "digits_val s = foldl (\<lambda>a c. 10 * a + digit_val c) 0 s"

definition all_digits :: "string \<Rightarrow> bool" where
  "all_digits s = list_all is_digit s"

definition split_sign :: "string \<Rightarrow> bool \<times> string" where
  "split_sign s =
     (case s of
        [] \<Rightarrow> (False, [])
      | c # r \<Rightarrow> if c = CHR ''-'' then (True, r)
                 else if c = CHR ''+'' then (False, r)
                 else (False, s))"

definition py_float :: "string \<Rightarrow> rat option" where
  "py_float s =
     (let (neg, body) = split_sign s;
          ip = takeWhile (\<lambda>c. c \<noteq> CHR ''.'') body;
          fp = drop 1 (dropWhile (\<lambda>c. c \<noteq> CHR ''.'') body);
          v = of_nat (digits_val ip) + of_nat (digits_val fp) / 10 ^ length fp
      in if all_digits ip \<and> all_digits fp \<and> (ip \<noteq> [] \<or> fp \<noteq> [])
         then Some (if neg then - v else v)
         else None)"

definition py_int :: "string \<Rightarrow> int option" where
  "py_int s =
     (let (neg, body) = split_sign s
      in if body \<noteq> [] \<and> all_digits body
         then Some (if neg then - int (digits_val body) else int (digits_val body))
         else None)"

text \<open>\<open>np.round(x, 0)\<close>: to the nearest integer, a tie to the even neighbour.\<close>

definition np_round :: "rat \<Rightarrow> int" where
  "np_round x =
     (let f = \<lfloor>x\<rfloor>; d = x - of_int f
      in if d < 1 / 2 then f
         else if 1 / 2 < d then f + 1
         else if even f then f else f + 1)"

section \<open>Data model (init\_db.py)\<close>

text \<open>
  A row of the frame that \<open>_get_unprocessed_bets\<close> selects. A column that is NULL
  in the database is \<open>None\<close>. The column \<open>odds\<close> is declared \<open>INTEGER\<close>; SQLite
  keeps a number that is no integer as it is, so the value is a rational.
\<close>

record ocr_bet =
  bet_id :: int
  player_id :: "int option"
  bet_type :: "string option"
  score :: "rat option"
  date :: "string option"
  bet_line :: "string option"
  odds :: "rat option"

datatype bet_result = Win | Loss | Push

datatype over_under = Over | Under

type_synonym game_stats = "string \<rightharpoonup> rat"

section \<open>Settlement arithmetic (process\_bets.py)\<close>

definition startswith :: "string \<Rightarrow> char \<Rightarrow> bool" where
  "startswith s c = (case s of [] \<Rightarrow> False | x # _ \<Rightarrow> x = c)"

definition compare_result :: "rat \<Rightarrow> rat \<Rightarrow> over_under \<Rightarrow> bet_result" where
  "compare_result stat_value line_value ou =
     (if (stat_value > line_value \<and> ou = Over) \<or> (stat_value < line_value \<and> ou = Under) then Win
      else if (stat_value < line_value \<and> ou = Over) \<or> (stat_value > line_value \<and> ou = Under) then Loss
      else Push)"

text \<open>Python's \<open>a / b\<close> on floats raises \<open>ZeroDivisionError\<close> when \<open>b\<close> is zero.\<close>

definition py_truediv :: "rat \<Rightarrow> rat \<Rightarrow> py_error + rat" where
  "py_truediv a b = (if b = 0 then Inl ZeroDivisionError else Inr (a / b))"

text \<open>
  The delta of a lost bet: \<open>-np.round((100 / (odds / 100)), 0) if odds > 0 else odds\<close>.
  The conditional expression evaluates the quotients only in the branch \<open>odds > 0\<close>.
\<close>

definition loss_delta :: "rat \<Rightarrow> py_error + rat" where
  "loss_delta od =
     (if od > 0
      then (case py_truediv od 100 of
              Inl e \<Rightarrow> Inl e
            | Inr q \<Rightarrow> (case py_truediv 100 q of
                          Inl e \<Rightarrow> Inl e
                        | Inr r \<Rightarrow> Inr (- of_int (np_round r))))
      else Inr od)"

definition calculate_results ::
  "'a ocr_bet_scheme \<Rightarrow> game_stats \<Rightarrow> py_error + (bet_result \<times> rat \<times> rat \<times> rat \<times> over_under)" where
  "calculate_results b gs =
     (case bet_type b of
        None \<Rightarrow> Inl KeyError
      | Some bt \<Rightarrow>
     (case gs bt of
        None \<Rightarrow> Inl KeyError
      | Some stat_value \<Rightarrow>
     (case bet_line b of
        None \<Rightarrow> Inl TypeError
      | Some bl \<Rightarrow>
     (case py_float (drop 1 bl) of
        None \<Rightarrow> Inl ValueError
      | Some line_value \<Rightarrow>
          if \<not> startswith bl CHR ''o'' \<and> \<not> startswith bl CHR ''u'' then Inl ValueError
          else
            let ou = (if startswith bl CHR ''o'' then Over else Under);
                result = compare_result stat_value line_value ou
            in if result = Push then Inl ValueError
               else if result = Win then Inr (result, 100, stat_value, line_value, ou)
               else (case odds b of
                       None \<Rightarrow> Inl TypeError
                     | Some od \<Rightarrow>
                         (case loss_delta od of
                            Inl e \<Rightarrow> Inl e
                          | Inr result_delta \<Rightarrow>
                              Inr (result, result_delta, stat_value, line_value, ou)))))))"

section \<open>Validation ranges (constants.py)\<close>

definition VALID_RANGES_score :: "rat \<times> rat" where
  "VALID_RANGES_score = (20, 100)"

definition VALID_RANGES_odds :: "int \<times> int" where
  "VALID_RANGES_odds = (- 1000, 1000)"

definition odds_in_range :: "int \<Rightarrow> bool" where
  "odds_in_range od = (fst VALID_RANGES_odds \<le> od \<and> od \<le> snd VALID_RANGES_odds)"

section \<open>The specification's loss formula\<close>


section \<open>Tables (init\_db.py)\<close>

text \<open>
  A row of \<open>raw_ocr_bets\<close>: the seven columns of \<open>ocr_bet\<close> and the remaining ones.
  The two diagnostic columns are stored JSON-encoded by the source; the encoding is not
  modelled. The timestamp columns, which no modelled operation reads, are left out.
\<close>

record raw_ocr_bet = ocr_bet +
  image_source :: string
  raw_text :: string
  read_players :: "string option"
  read_score_patterns :: "(string \<times> string \<times> string) option"
  is_processed :: bool
  needs_review :: bool
  is_voided :: bool

record stat_line =
  points :: rat
  assists :: rat
  rebounds :: rat
  blocks :: rat
  steals :: rat
  turnovers :: rat
  three_pointers :: rat
  par :: rat
  pts_rebs :: rat
  pts_asts :: rat
  rebs_asts :: rat

record game_stats_row =
  gs_id :: int
  gs_player_id :: int
  gs_date :: string
  gs_line :: stat_line

record bet_results_row =
  br_raw_bet_id :: int
  br_player_id :: int
  br_game_stats_id :: int
  br_bet_type :: string
  br_result :: bet_result
  br_result_delta :: rat
  br_score_range :: string
  br_over_under :: over_under
  br_stat_result :: rat
  br_line_value :: rat

record unplayed_bets_row =
  ub_raw_bet_id :: int
  ub_player_id :: int
  ub_date :: string

record players_row =
  name :: string
  nba_api_id :: int
  is_active :: bool

text \<open>
  The database: the tables, and for the two tables whose ids are read the
  \<open>AUTOINCREMENT\<close> counter (the largest id handed out so far).
\<close>

record database =
  raw_ocr_bets :: "raw_ocr_bet list"
  raw_ocr_bets_seq :: int
  game_stats_tbl :: "game_stats_row list"
  game_stats_seq :: int
  bet_results :: "bet_results_row list"
  unplayed_bets :: "unplayed_bets_row list"
  players :: "players_row list"

text \<open>
  A connection holds the last committed state and the state the connection sees. What is
  left in the file when the process ends is the committed state.
\<close>

text \<open>
  The id that \<open>AUTOINCREMENT\<close> gives a new row: one more than the largest id the table
  has ever held.
\<close>

definition next_rowid :: "int \<Rightarrow> int list \<Rightarrow> int" where
  "next_rowid seq ids = foldr max ids seq + 1"

record conn =
  committed :: database
  current :: database

definition commit :: "conn \<Rightarrow> conn" where
  "commit c = c\<lparr>committed := current c\<rparr>"

definition rollback :: "conn \<Rightarrow> conn" where
  "rollback c = c\<lparr>current := committed c\<rparr>"

section \<open>The stats service\<close>

text \<open>
  One game-log row of the external service, and what a call for one bet does: a row for
  the bet's date, no row for that date, a transport or timeout failure, or any other
  exception inside the call (an empty game log, a date that does not parse).
\<close>

record api_line =
  PTS :: rat
  AST :: rat
  REB :: rat
  BLK :: rat
  STL :: rat
  TOV :: rat
  FG3M :: rat

datatype api_reply = Played api_line | NotPlayed | TransportFailure | OtherFailure

type_synonym stats_service = "ocr_bet \<Rightarrow> api_reply"

section \<open>Settlement engine (process\_bets.py)\<close>

definition standardize_stat_names :: "api_line \<Rightarrow> stat_line" where
  "standardize_stat_names a =
     \<lparr>points = PTS a, assists = AST a, rebounds = REB a, blocks = BLK a, steals = STL a,
      turnovers = TOV a, three_pointers = FG3M a,
      par = PTS a + REB a + AST a,
      pts_rebs = PTS a + REB a,
      pts_asts = PTS a + AST a,
      rebs_asts = REB a + AST a\<rparr>"

text \<open>The dictionary of the eleven stats that the engine hands to \<open>_calculate_results\<close>.\<close>

definition stats_dict :: "stat_line \<Rightarrow> game_stats" where
  "stats_dict sl =
     map_of [(''points'', points sl), (''assists'', assists sl), (''rebounds'', rebounds sl),
             (''blocks'', blocks sl), (''steals'', steals sl), (''turnovers'', turnovers sl),
             (''three_pointers'', three_pointers sl), (''par'', par sl),
             (''pts_rebs'', pts_rebs sl), (''pts_asts'', pts_asts sl),
             (''rebs_asts'', rebs_asts sl)]"

definition get_unprocessed_bets :: "database \<Rightarrow> ocr_bet list" where
  "get_unprocessed_bets db =
     map ocr_bet.truncate
       (filter (\<lambda>r. \<not> is_processed r \<and> \<not> needs_review r \<and> \<not> is_voided r) (raw_ocr_bets db))"

definition same_player_date :: "ocr_bet \<Rightarrow> int \<Rightarrow> string \<Rightarrow> bool" where
  "same_player_date b p d = (player_id b = Some p \<and> date b = Some d)"

definition get_cached_stats :: "ocr_bet \<Rightarrow> database \<Rightarrow> stat_line option" where
  "get_cached_stats b db =
     (case filter (\<lambda>g. same_player_date b (gs_player_id g) (gs_date g)) (game_stats_tbl db) of
        [] \<Rightarrow> None
      | g # _ \<Rightarrow> Some (gs_line g))"

definition in_unplayed_bets :: "ocr_bet \<Rightarrow> database \<Rightarrow> bool" where
  "in_unplayed_bets b db =
     list_ex (\<lambda>r. list_ex (\<lambda>u. player_id r = Some (ub_player_id u) \<and> date r = Some (ub_date u) \<and>
                               player_id r = player_id b \<and> date r = date b)
                    (unplayed_bets db))
       (raw_ocr_bets db)"

text \<open>
  \<open>_get_api_stats\<close>: \<open>int(player_id)\<close> fails on a missing player id; a transport or
  timeout failure is caught and answered with \<open>quit()\<close>; any other exception is logged
  and raised again.
\<close>

definition get_api_stats :: "stats_service \<Rightarrow> ocr_bet \<Rightarrow> py_error + stat_line option" where
  "get_api_stats api b =
     (case player_id b of
        None \<Rightarrow> Inl TypeError
      | Some _ \<Rightarrow>
          (case api b of
             Played a \<Rightarrow> Inr (Some (standardize_stat_names a))
           | NotPlayed \<Rightarrow> Inr None
           | TransportFailure \<Rightarrow> Inl SystemExit
           | OtherFailure \<Rightarrow> Inl ValueError))"

definition get_player_game_stats ::
  "stats_service \<Rightarrow> ocr_bet \<Rightarrow> database \<Rightarrow> py_error + (bool \<times> stat_line option)" where
  "get_player_game_stats api b db =
     (case get_cached_stats b db of
        Some sl \<Rightarrow> Inr (True, Some sl)
      | None \<Rightarrow>
          if in_unplayed_bets b db then Inr (True, None)
          else (case get_api_stats api b of
                  Inl e \<Rightarrow> Inl e
                | Inr r \<Rightarrow> Inr (False, r)))"

definition score_ranges :: "(rat \<times> rat \<times> string) list" where
  "score_ranges =
     [(20, 25, ''20-25''), (25, 30, ''25-30''), (30, 35, ''30-35''),
      (35, 40, ''35-40''), (40, 45, ''40-45''), (45, 50, ''45-50'')]"

definition calculate_score_range :: "rat option \<Rightarrow> py_error + string" where
  "calculate_score_range sc =
     (case sc of
        None \<Rightarrow> Inl TypeError
      | Some s \<Rightarrow>
          if s < 20 then Inl ValueError
          else (case find (\<lambda>(low, high, range_str). low \<le> s \<and> s < high) score_ranges of
                  Some (low, high, range_str) \<Rightarrow> Inr range_str
                | None \<Rightarrow> Inr ''50+''))"

definition get_game_stats_id :: "ocr_bet \<Rightarrow> database \<Rightarrow> py_error + int" where
  "get_game_stats_id b db =
     (case filter (\<lambda>g. same_player_date b (gs_player_id g) (gs_date g)) (game_stats_tbl db) of
        [] \<Rightarrow> Inl TypeError
      | g # _ \<Rightarrow> Inr (gs_id g))"

text \<open>
  The three inserts run inside \<open>with self.conn:\<close>, which commits the connection when the
  statement succeeds and rolls it back when the statement raises. The constraints are the
  schema's: \<open>NOT NULL\<close>, \<open>UNIQUE\<close> and the \<open>CHECK\<close> on \<open>result\<close>.
\<close>

definition insert_into_game_stats :: "ocr_bet \<Rightarrow> stat_line \<Rightarrow> conn \<Rightarrow> (py_error + unit) \<times> conn" where
  "insert_into_game_stats b sl c =
     (case (player_id b, date b) of
        (Some p, Some d) \<Rightarrow>
          if list_ex (\<lambda>g. gs_player_id g = p \<and> gs_date g = d) (game_stats_tbl (current c))
          then (Inl IntegrityError, rollback c)
          else
            let db = current c;
                new_id = next_rowid (game_stats_seq db) (map gs_id (game_stats_tbl db));
                row = \<lparr>gs_id = new_id, gs_player_id = p, gs_date = d, gs_line = sl\<rparr>
            in (Inr (), commit (c\<lparr>current := db\<lparr>game_stats_tbl := game_stats_tbl db @ [row],
                                                game_stats_seq := new_id\<rparr>\<rparr>))
      | _ \<Rightarrow> (Inl IntegrityError, rollback c))"

definition insert_into_unplayed_bets :: "ocr_bet \<Rightarrow> conn \<Rightarrow> conn" where
  "insert_into_unplayed_bets b c =
     (case (player_id b, date b) of
        (Some p, Some d) \<Rightarrow>
          if list_ex (\<lambda>u. ub_raw_bet_id u = bet_id b) (unplayed_bets (current c))
          then commit c
          else
            let db = current c;
                row = \<lparr>ub_raw_bet_id = bet_id b, ub_player_id = p, ub_date = d\<rparr>
            in commit (c\<lparr>current := db\<lparr>unplayed_bets := unplayed_bets db @ [row]\<rparr>\<rparr>)
      | _ \<Rightarrow> commit c)"

definition insert_into_bet_results :: "ocr_bet \<Rightarrow> stat_line \<Rightarrow> conn \<Rightarrow> (py_error + unit) \<times> conn" where
  "insert_into_bet_results b sl c =
     (case calculate_results b (stats_dict sl) of
        Inl e \<Rightarrow> (Inl e, c)
      | Inr (result, result_delta, stat_result, line_value, ou) \<Rightarrow>
     (case calculate_score_range (score b) of
        Inl e \<Rightarrow> (Inl e, c)
      | Inr score_range \<Rightarrow>
     (case get_game_stats_id b (current c) of
        Inl e \<Rightarrow> (Inl e, c)
      | Inr game_stats_id \<Rightarrow>
     (case (player_id b, bet_type b) of
        (Some p, Some bt) \<Rightarrow>
          if result = Push \<or> list_ex (\<lambda>r. br_raw_bet_id r = bet_id b) (bet_results (current c))
          then (Inl IntegrityError, rollback c)
          else
            let db = current c;
                row = \<lparr>br_raw_bet_id = bet_id b, br_player_id = p,
                       br_game_stats_id = game_stats_id, br_bet_type = bt,
                       br_result = result, br_result_delta = result_delta,
                       br_score_range = score_range, br_over_under = ou,
                       br_stat_result = stat_result, br_line_value = line_value\<rparr>
            in (Inr (), commit (c\<lparr>current := db\<lparr>bet_results := bet_results db @ [row]\<rparr>\<rparr>))
      | _ \<Rightarrow> (Inl IntegrityError, rollback c)))))"

text \<open>\<open>_mark_bet_processed\<close> is a bare \<open>UPDATE\<close>: it does not commit.\<close>

definition mark_bet_processed :: "ocr_bet \<Rightarrow> conn \<Rightarrow> conn" where
  "mark_bet_processed b c =
     c\<lparr>current := (current c)\<lparr>raw_ocr_bets :=
          map (\<lambda>r. if bet_id r = bet_id b then r\<lparr>is_processed := True\<rparr> else r)
              (raw_ocr_bets (current c))\<rparr>\<rparr>"

text \<open>
  The body of the loop of \<open>_process_unprocessed_bets\<close> for one bet: \<open>Some e\<close> is the
  exception \<open>e\<close> raised inside the \<open>try\<close>.
\<close>

definition process_bet :: "stats_service \<Rightarrow> ocr_bet \<Rightarrow> conn \<Rightarrow> py_error option \<times> conn" where
  "process_bet api b c =
     (case get_player_game_stats api b (current c) of
        Inl e \<Rightarrow> (Some e, c)
      | Inr (in_db, None) \<Rightarrow> (None, mark_bet_processed b (insert_into_unplayed_bets b c))
      | Inr (in_db, Some sl) \<Rightarrow>
          (case (if \<not> in_db then insert_into_game_stats b sl c else (Inr (), c)) of
             (Inl e, c1) \<Rightarrow> (Some e, c1)
           | (Inr _, c1) \<Rightarrow>
               (case insert_into_bet_results b sl c1 of
                  (Inl e, c2) \<Rightarrow> (Some e, c2)
                | (Inr _, c2) \<Rightarrow> (None, mark_bet_processed b c2))))"

text \<open>
  The loop: \<open>except Exception\<close> logs and continues with the next bet; an exception that is
  not an \<open>Exception\<close> leaves the loop.
\<close>

fun process_bets_loop :: "stats_service \<Rightarrow> ocr_bet list \<Rightarrow> conn \<Rightarrow> py_error option \<times> conn" where
  "process_bets_loop api [] c = (None, c)"
| "process_bets_loop api (b # bs) c =
     (case process_bet api b c of
        (None, c') \<Rightarrow> process_bets_loop api bs c'
      | (Some e, c') \<Rightarrow>
          if is_Exception e then process_bets_loop api bs c' else (Some e, c'))"

definition process_unprocessed_bets :: "stats_service \<Rightarrow> conn \<Rightarrow> py_error option \<times> conn" where
  "process_unprocessed_bets api c = process_bets_loop api (get_unprocessed_bets (current c)) c"

text \<open>
  \<open>process_new_bets\<close>: the run, then \<open>commit\<close> and \<open>return True\<close>; \<open>except Exception\<close>
  rolls back and returns \<open>False\<close>; any other exception propagates to the caller with
  neither. \<open>validate_data_integrity\<close> only reads and catches its own exceptions.
\<close>

datatype run_outcome = Returned bool | Propagated py_error

definition process_new_bets :: "stats_service \<Rightarrow> conn \<Rightarrow> run_outcome \<times> conn" where
  "process_new_bets api c =
     (case process_unprocessed_bets api c of
        (None, c') \<Rightarrow> (Returned True, commit c')
      | (Some e, c') \<Rightarrow>
          if is_Exception e then (Returned False, rollback c') else (Propagated e, c'))"

text \<open>What the database file holds once the run is over and the connection is gone.\<close>

definition persisted :: "run_outcome \<times> conn \<Rightarrow> database" where
  "persisted r = committed (snd r)"

section \<open>An invariant of the results table\<close>

text \<open>
  Relative to a set \<open>S\<close> of rows that were there before: every other row of
  \<open>bet_results\<close>, in the state the connection sees and in the committed state, has a
  result different from Push.
\<close>

definition push_free :: "bet_results_row set \<Rightarrow> conn \<Rightarrow> bool" where
  "push_free S c =
     ((\<forall>r\<in>set (bet_results (current c)). r \<in> S \<or> br_result r \<noteq> Push) \<and>
      (\<forall>r\<in>set (bet_results (committed c)). r \<in> S \<or> br_result r \<noteq> Push))"

section \<open>Example data\<close>

definition example_bet1 :: raw_ocr_bet where
  "example_bet1 =
     \<lparr>bet_id = 1, player_id = Some 7, bet_type = Some ''points'', score = Some 25,
      date = Some ''2025-01-05'', bet_line = Some ''o21.5'', odds = Some (- 150),
      image_source = ''a.png'', raw_text = ''t'', read_players = None,
      read_score_patterns = None,
      is_processed = False, needs_review = False, is_voided = False\<rparr>"

definition example_bet2 :: raw_ocr_bet where
  "example_bet2 =
     \<lparr>bet_id = 2, player_id = Some 8, bet_type = Some ''assists'', score = Some 30,
      date = Some ''2025-01-05'', bet_line = Some ''u4.5'', odds = Some 120,
      image_source = ''a.png'', raw_text = ''t'', read_players = None,
      read_score_patterns = None,
      is_processed = False, needs_review = False, is_voided = False\<rparr>"

definition example_db :: database where
  "example_db =
     \<lparr>raw_ocr_bets = [example_bet1, example_bet2], raw_ocr_bets_seq = 2,
      game_stats_tbl = [], game_stats_seq = 0,
      bet_results = [], unplayed_bets = [], players = []\<rparr>"

definition example_conn :: conn where
  "example_conn = \<lparr>committed = example_db, current = example_db\<rparr>"

text \<open>
  A stats service that answers the first bet with a game and fails with a transport error
  on the second.
\<close>

definition example_api :: stats_service where
  "example_api b =
     (if bet_id b = 1
      then Played \<lparr>PTS = 25, AST = 3, REB = 4, BLK = 0, STL = 1, TOV = 2, FG3M = 3\<rparr>
      else TransportFailure)"

text \<open>A stat line whose points equal the line of a bet on \<open>o21.5\<close>.\<close>

definition tie_line :: stat_line where
  "tie_line =
     \<lparr>points = 43 / 2, assists = 3, rebounds = 4, blocks = 0, steals = 1, turnovers = 2,
      three_pointers = 3, par = 57 / 2, pts_rebs = 51 / 2, pts_asts = 49 / 2, rebs_asts = 7\<rparr>"

section \<open>Cells of a pandas frame\<close>

text \<open>
  A cell of a pandas row is dynamically typed: missing (\<open>None\<close>, \<open>NaN\<close>, \<open>pd.NA\<close>), a
  string, an integer or a float.
\<close>

datatype cell = NA | PyStr string | PyInt int | PyFloat rat

definition isna :: "cell \<Rightarrow> bool" where
  "isna c = (c = NA)"

text \<open>Python's truth value: empty strings and zeros are false.\<close>

definition truthy :: "cell \<Rightarrow> bool" where
  "truthy c = (case c of NA \<Rightarrow> False | PyStr s \<Rightarrow> s \<noteq> [] | PyInt i \<Rightarrow> i \<noteq> 0 | PyFloat x \<Rightarrow> x \<noteq> 0)"

definition digit_char :: "nat \<Rightarrow> char" where
  "digit_char n = char_of (48 + n)"

function nat_str :: "nat \<Rightarrow> string" where
  "nat_str n = (if n < 10 then [digit_char n] else nat_str (n div 10) @ [digit_char (n mod 10)])"
  by pat_completeness auto
termination
  by (relation "measure id") auto

definition int_str :: "int \<Rightarrow> string" where
  "int_str i = (if i < 0 then CHR ''-'' # nat_str (nat (- i)) else nat_str (nat i))"

text \<open>
  \<open>str\<close> of a float whose decimal expansion is finite and short, as the floats of this
  program are: the integer part, a point and the fractional digits, at least one. The
  exponent notation of very large and very small floats is outside the embedding.
\<close>

fun frac_digits :: "nat \<Rightarrow> rat \<Rightarrow> string" where
  "frac_digits 0 x = []"
| "frac_digits (Suc n) x =
     (if x = 0 then []
      else let d = \<lfloor>x * 10\<rfloor> in digit_char (nat d) # frac_digits n (x * 10 - of_int d))"

definition float_str :: "rat \<Rightarrow> string" where
  "float_str x =
     (let a = \<bar>x\<bar>; ip = \<lfloor>a\<rfloor>; fr = a - of_int ip
      in (if x < 0 then ''-'' else []) @ nat_str (nat ip) @ ''.'' @
         (if fr = 0 then ''0'' else frac_digits 17 fr))"

definition py_str :: "cell \<Rightarrow> string" where
  "py_str c = (case c of NA \<Rightarrow> ''<NA>'' | PyStr s \<Rightarrow> s | PyInt i \<Rightarrow> int_str i | PyFloat x \<Rightarrow> float_str x)"

text \<open>\<open>float(x)\<close> and \<open>int(x)\<close> of a cell that is not missing.\<close>

definition float_of_cell :: "cell \<Rightarrow> py_error + rat" where
  "float_of_cell c =
     (case c of
        NA \<Rightarrow> Inl TypeError
      | PyStr s \<Rightarrow> (case py_float s of None \<Rightarrow> Inl ValueError | Some x \<Rightarrow> Inr x)
      | PyInt i \<Rightarrow> Inr (of_int i)
      | PyFloat x \<Rightarrow> Inr x)"

definition int_of_cell :: "cell \<Rightarrow> py_error + int" where
  "int_of_cell c =
     (case c of
        NA \<Rightarrow> Inl TypeError
      | PyStr s \<Rightarrow> (case py_int s of None \<Rightarrow> Inl ValueError | Some i \<Rightarrow> Inr i)
      | PyInt i \<Rightarrow> Inr i
      | PyFloat x \<Rightarrow> Inr (if 0 \<le> x then \<lfloor>x\<rfloor> else \<lceil>x\<rceil>))"

section \<open>Constants (constants.py)\<close>

definition TYPE_REPLACEMENTS :: "(string \<times> string) list" where
  "TYPE_REPLACEMENTS =
     [(''Reb+Ast'', ''rebs_asts''), (''Pts+Ast'', ''pts_asts''), (''Pts+Reb'', ''pts_rebs''),
      (''3pts'', ''three_pointers''), (''Pts+Reb+Ast'', ''par''), (''Blocks'', ''blocks''),
      (''Steals'', ''steals''), (''Turnovers'', ''turnovers''), (''Points'', ''points''),
      (''Assists'', ''assists''), (''Rebounds'', ''rebounds'')]"

section \<open>Review classifier (image\_processor.py)\<close>

text \<open>The six fields that the classifier reads.\<close>

record bet_fields =
  entry_date :: cell
  entry_bet_type :: cell
  entry_bet_line :: cell
  entry_score :: cell
  entry_odds :: cell
  entry_player :: cell

text \<open>
  \<open>re.match(r'^[ou]\d+\.5$', s)\<close>, on ASCII digits; \<open>$\<close> also matches before one
  final newline.
\<close>

definition bet_line_matches :: "string \<Rightarrow> bool" where
  "bet_line_matches s =
     (let t = (if s \<noteq> [] \<and> last s = CHR 0x0A then butlast s else s)
      in case t of
           [] \<Rightarrow> False
         | c # r \<Rightarrow> (c = CHR ''o'' \<or> c = CHR ''u'') \<and>
                    takeWhile is_digit r \<noteq> [] \<and> dropWhile is_digit r = ''.5'')"

definition in_player_ids :: "cell \<Rightarrow> (string \<times> int) list \<Rightarrow> bool" where
  "in_player_ids c player_ids = (case c of PyStr s \<Rightarrow> map_of player_ids s \<noteq> None | _ \<Rightarrow> False)"

definition check_player :: "(string \<times> int) list \<Rightarrow> cell \<Rightarrow> string list" where
  "check_player player_ids c =
     (if isna c \<or> \<not> truthy c then [''Missing player name'']
      else if \<not> in_player_ids c player_ids then [''Player not found: '' @ py_str c]
      else [])"

definition check_bet_type :: "cell \<Rightarrow> string list" where
  "check_bet_type c =
     (if isna c \<or> \<not> truthy c then [''Missing bet type'']
      else if (case c of PyStr s \<Rightarrow> s \<notin> set (map snd TYPE_REPLACEMENTS) | _ \<Rightarrow> True)
           then [''Invalid bet type: '' @ py_str c]
      else [])"

definition check_score :: "cell \<Rightarrow> string list" where
  "check_score c =
     (if isna c then [''Missing score'']
      else (case float_of_cell c of
              Inl e \<Rightarrow> [''Invalid score format: '' @ py_str c]
            | Inr sc \<Rightarrow>
                let score_lower_bound = fst VALID_RANGES_score;
                    score_upper_bound = snd VALID_RANGES_score
                in if \<not> (score_lower_bound \<le> sc \<and> sc \<le> score_upper_bound)
                   then [''Score out of expected range ['' @ float_str score_lower_bound @ '','' @
                           float_str score_upper_bound @ '']: '' @ float_str sc]
                   else []))"

definition check_bet_line :: "cell \<Rightarrow> string list" where
  "check_bet_line c =
     (if isna c then [''Missing bet line'']
      else if \<not> bet_line_matches (py_str c) then [''Invalid bet line format: '' @ py_str c]
      else [])"

definition check_odds :: "cell \<Rightarrow> string list" where
  "check_odds c =
     (if isna c then [''Missing odds'']
      else (case int_of_cell c of
              Inl e \<Rightarrow> [''Invalid odds format: '' @ py_str c]
            | Inr od \<Rightarrow>
                if \<not> odds_in_range od
                then [''Odds out of expected range ['' @ int_str (fst VALID_RANGES_odds) @ '','' @
                        int_str (snd VALID_RANGES_odds) @ '']: '' @ int_str od]
                else []))"

text \<open>
  The date check calls \<open>pd.to_datetime\<close> on the cell. The parser is pandas'; it is a
  parameter: \<open>to_datetime_ok c\<close> says that it accepts the cell.
\<close>

definition check_date :: "(cell \<Rightarrow> bool) \<Rightarrow> cell \<Rightarrow> string list" where
  "check_date to_datetime_ok c =
     (if isna c then [''Missing date'']
      else if \<not> to_datetime_ok c then [''Invalid date format: '' @ py_str c]
      else [])"

text \<open>
  The reasons of one bet, in the order of the checks. The source collects them in a set
  and returns \<open>(len(reasons) > 0, list(reasons))\<close>; the order of that list is
  unspecified, so the result is the set.
\<close>

definition bet_reasons ::
  "(string \<times> int) list \<Rightarrow> (cell \<Rightarrow> bool) \<Rightarrow> 'a bet_fields_scheme \<Rightarrow> string list" where
  "bet_reasons player_ids to_datetime_ok e =
     check_player player_ids (entry_player e) @
     check_bet_type (entry_bet_type e) @
     check_score (entry_score e) @
     check_bet_line (entry_bet_line e) @
     check_odds (entry_odds e) @
     check_date to_datetime_ok (entry_date e)"

definition bet_needs_review ::
  "(string \<times> int) list \<Rightarrow> (cell \<Rightarrow> bool) \<Rightarrow> 'a bet_fields_scheme \<Rightarrow> bool \<times> string set" where
  "bet_needs_review player_ids to_datetime_ok e =
     (let reasons = bet_reasons player_ids to_datetime_ok e
      in (reasons \<noteq> [], set reasons))"

definition image_needs_review ::
  "(string \<times> int) list \<Rightarrow> (cell \<Rightarrow> bool) \<Rightarrow> 'a bet_fields_scheme list \<Rightarrow> bool \<times> string set" where
  "image_needs_review player_ids to_datetime_ok image_df =
     (let all_reasons =
            concat (map (\<lambda>e. if fst (bet_needs_review player_ids to_datetime_ok e)
                              then bet_reasons player_ids to_datetime_ok e else [])
                        image_df)
      in (all_reasons \<noteq> [], set all_reasons))"

section \<open>Validity of the six fields\<close>







text \<open>A roster, a date parser that accepts every string, and a candidate with score 15.0.\<close>

definition example_player_ids :: "(string \<times> int) list" where
  "example_player_ids = [(''LeBron James'', 2544), (''Stephen Curry'', 201939)]"

definition any_string_ok :: "cell \<Rightarrow> bool" where
  "any_string_ok c = (case c of PyStr s \<Rightarrow> True | _ \<Rightarrow> False)"



section \<open>Bet candidate extractor (image\_processor.py)\<close>

text \<open>
  One dictionary of \<open>_extract_bet_data\<close>: the six fields, the two diagnostic entries and
  the raw text. A row of the frame of \<open>process_image\<close> has the image name as well.
\<close>

record bet_dict = bet_fields +
  entry_read_score_patterns :: "(string \<times> string \<times> string) option"
  entry_read_players :: "string option"
  entry_raw_text :: string

record bet_entry = bet_dict +
  entry_image_source :: string

text \<open>
  What the OCR engine and the regular expressions find in one image: the text, the date
  tokens, the first bet-type label, the score/line/odds triples, and the known player
  names in order of appearance. The OCR engine and the regular-expression engine are
  libraries; their findings are the input of the embedding.
\<close>

record ocr_reading =
  ocr_text :: string
  found_dates :: "string list"
  found_bet_type :: "string option"
  found_score_lines :: "(string \<times> string \<times> string) list"
  found_players :: "string list"

text \<open>\<open>d.get(k, k)\<close> on a replacement table.\<close>

definition get_or_same :: "(string \<times> string) list \<Rightarrow> string \<Rightarrow> string" where
  "get_or_same d k = (case map_of d k of None \<Rightarrow> k | Some v \<Rightarrow> v)"

text \<open>
  \<open>xs if len(xs) == max_length else [pd.NA] * max_length\<close>: a column that is too short
  becomes missing as a whole.
\<close>

definition column_or_na :: "string list \<Rightarrow> nat \<Rightarrow> cell list" where
  "column_or_na xs max_length =
     (if length xs = max_length then map PyStr xs else replicate max_length NA)"

text \<open>
  \<open>xs if len(xs) == max_length else xs + [pd.NA] * (max_length - len(xs))\<close>: the
  diagnostic columns are padded.
\<close>

definition pad_with_na :: "'a list \<Rightarrow> nat \<Rightarrow> 'a option list" where
  "pad_with_na xs max_length =
     (if length xs = max_length then map Some xs
      else map Some xs @ replicate (max_length - length xs) None)"

text \<open>
  \<open>_extract_bet_data\<close>. The table \<open>NAME_REPLACEMENTS\<close> of constants.py is a parameter.
\<close>

definition extract_bet_data :: "(string \<times> string) list \<Rightarrow> ocr_reading \<Rightarrow> bet_dict list option" where
  "extract_bet_data NAME_REPLACEMENTS rd =
     (case found_dates rd of
        [] \<Rightarrow> None
      | date0 # _ \<Rightarrow>
          let bet_type_cell =
                (case found_bet_type rd of
                   None \<Rightarrow> NA
                 | Some t \<Rightarrow> PyStr (get_or_same TYPE_REPLACEMENTS t));
              score_lines = found_score_lines rd
          in if score_lines = [] then None
             else
               let scores = map (\<lambda>item. fst item) score_lines;
                   lines = map (\<lambda>item. fst (snd item)) score_lines;
                   odds_list = map (\<lambda>item. snd (snd item)) score_lines;
                   players_in_text = map (get_or_same NAME_REPLACEMENTS) (found_players rd);
                   max_length = max (max (max (length players_in_text) (length lines))
                                         (length scores)) (length odds_list);
                   scores_col = column_or_na scores max_length;
                   lines_col = column_or_na lines max_length;
                   odds_col = column_or_na odds_list max_length;
                   players_col = column_or_na players_in_text max_length;
                   score_lines_dbg = pad_with_na score_lines max_length;
                   players_dbg = pad_with_na players_in_text max_length
               in Some (map (\<lambda>i. \<lparr>entry_date = PyStr date0,
                                     entry_bet_type = bet_type_cell,
                                     entry_bet_line = lines_col ! i,
                                     entry_score = scores_col ! i,
                                     entry_odds = odds_col ! i,
                                     entry_player = players_col ! i,
                                     entry_read_score_patterns = score_lines_dbg ! i,
                                     entry_read_players = players_dbg ! i,
                                     entry_raw_text = ocr_text rd\<rparr>)
                            [0..<max_length]))"

definition with_image_source :: "string \<Rightarrow> bet_dict \<Rightarrow> bet_entry" where
  "with_image_source image_name d = bet_dict.extend d (bet_entry.fields image_name)"

text \<open>A reading with one player name and two score/line/odds triples.\<close>

definition example_reading :: ocr_reading where
  "example_reading =
     \<lparr>ocr_text = ''1/05 Points LeBron James +25.50% o21.5 -150 +30.25% u4.5 +120'',
      found_dates = [''1/05''],
      found_bet_type = Some ''Points'',
      found_score_lines = [(''+25.50%'', ''o21.5'', ''-150''), (''+30.25%'', ''u4.5'', ''+120'')],
      found_players = [''LeBron James'']\<rparr>"

section \<open>Field normalizer (image\_processor.py)\<close>

fun map_result :: "('a \<Rightarrow> py_error + 'b) \<Rightarrow> 'a list \<Rightarrow> py_error + 'b list" where
  "map_result f [] = Inr []"
| "map_result f (x # xs) =
     (case f x of
        Inl e \<Rightarrow> Inl e
      | Inr y \<Rightarrow> (case map_result f xs of Inl e \<Rightarrow> Inl e | Inr ys \<Rightarrow> Inr (y # ys)))"

text \<open>
  One statement of \<open>clean_data\<close>: the cells of one column that are not missing are
  replaced by their images; a cell on which the operation raises aborts the statement
  with that exception.
\<close>

definition map_column ::
  "(cell \<Rightarrow> py_error + cell) \<Rightarrow> (bet_entry \<Rightarrow> cell) \<Rightarrow> (cell \<Rightarrow> bet_entry \<Rightarrow> bet_entry) \<Rightarrow>
   bet_entry list \<Rightarrow> py_error + bet_entry list" where
  "map_column f col upd df =
     map_result (\<lambda>e. if isna (col e) then Inr e
                      else (case f (col e) of Inl er \<Rightarrow> Inl er | Inr v \<Rightarrow> Inr (upd v e))) df"

text \<open>A string method on a cell; a cell that is no string has no such method.\<close>

definition on_str :: "(string \<Rightarrow> py_error + cell) \<Rightarrow> cell \<Rightarrow> py_error + cell" where
  "on_str f c = (case c of PyStr s \<Rightarrow> f s | _ \<Rightarrow> Inl AttributeError)"

definition remove_spaces :: "string \<Rightarrow> string" where
  "remove_spaces s = filter (\<lambda>c. c \<noteq> CHR '' '') s"

text \<open>\<open>^[74~"]\<close> replaced by \<open>-\<close>, then \<open>(?<!^)-\<close> replaced by \<open>4\<close>.\<close>

definition fix_leading_minus :: "string \<Rightarrow> string" where
  "fix_leading_minus s =
     (case s of
        [] \<Rightarrow> []
      | c # r \<Rightarrow> if c = CHR ''7'' \<or> c = CHR ''4'' \<or> c = CHR ''~'' \<or> c = CHR 0x22
                 then CHR ''-'' # r else s)"

definition fix_inner_fours :: "string \<Rightarrow> string" where
  "fix_inner_fours s =
     (case s of
        [] \<Rightarrow> []
      | c # r \<Rightarrow> c # map (\<lambda>x. if x = CHR ''-'' then CHR ''4'' else x) r)"

text \<open>\<open>astype('Int64')\<close> on a string: a signed decimal integer, or \<open>ValueError\<close>.\<close>

definition clean_odds :: "string \<Rightarrow> py_error + cell" where
  "clean_odds s =
     (case py_int (fix_inner_fours (fix_leading_minus s)) of
        None \<Rightarrow> Inl ValueError
      | Some i \<Rightarrow> Inr (PyInt i))"

definition fix_leading_zero :: "string \<Rightarrow> string" where
  "fix_leading_zero s = (case s of [] \<Rightarrow> [] | c # r \<Rightarrow> if c = CHR ''0'' then CHR ''o'' # r else s)"

text \<open>\<open>s[1:-1]\<close>.\<close>

definition strip_ends :: "string \<Rightarrow> string" where
  "strip_ends s = butlast (drop 1 s)"

text \<open>
  \<open>pd.to_datetime(f"{x}/{year}", format='%m/%d/%Y')\<close> and \<open>strftime('%Y-%m-%d')\<close>.
  The month is one or two digits from 1 to 12, the day one or two digits (or a space and
  a digit) from 1 to 31 that exists in that month, the year four digits. The bounds of
  pandas' timestamps are outside the embedding.
\<close>

fun split_slash :: "string \<Rightarrow> string list" where
  "split_slash [] = [[]]"
| "split_slash (c # cs) =
     (if c = CHR ''/'' then [] # split_slash cs
      else (case split_slash cs of [] \<Rightarrow> [[c]] | p # ps \<Rightarrow> (c # p) # ps))"

definition month_of :: "string \<Rightarrow> nat option" where
  "month_of s =
     (if all_digits s \<and> ((length s = 1 \<and> 1 \<le> digits_val s) \<or>
                          (length s = 2 \<and> 1 \<le> digits_val s \<and> digits_val s \<le> 12))
      then Some (digits_val s) else None)"

definition day_of :: "string \<Rightarrow> nat option" where
  "day_of s =
     (if all_digits s \<and> ((length s = 1 \<and> 1 \<le> digits_val s) \<or>
                          (length s = 2 \<and> 1 \<le> digits_val s \<and> digits_val s \<le> 31))
      then Some (digits_val s)
      else (case s of
              [a, b] \<Rightarrow> if a = CHR '' '' \<and> is_digit b \<and> 1 \<le> digit_val b
                        then Some (digit_val b) else None
            | _ \<Rightarrow> None))"

definition year_of :: "string \<Rightarrow> nat option" where
  "year_of s = (if all_digits s \<and> length s = 4 then Some (digits_val s) else None)"

definition leap_year :: "nat \<Rightarrow> bool" where
  "leap_year y = (y mod 4 = 0 \<and> (y mod 100 \<noteq> 0 \<or> y mod 400 = 0))"

definition days_in_month :: "nat \<Rightarrow> nat \<Rightarrow> nat" where
  "days_in_month y m =
     (if m = 2 then (if leap_year y then 29 else 28)
      else if m = 4 \<or> m = 6 \<or> m = 9 \<or> m = 11 then 30 else 31)"

definition two_digits :: "nat \<Rightarrow> string" where
  "two_digits n = [digit_char (n div 10), digit_char (n mod 10)]"

definition four_digits :: "nat \<Rightarrow> string" where
  "four_digits n = two_digits (n div 100) @ two_digits (n mod 100)"

definition convert_date :: "int \<Rightarrow> string \<Rightarrow> py_error + cell" where
  "convert_date year_arg x =
     (case split_slash (x @ ''/'' @ int_str year_arg) of
        [ms, ds, ys] \<Rightarrow>
          (case (month_of ms, day_of ds, year_of ys) of
             (Some m, Some d, Some y) \<Rightarrow>
               if 1 \<le> y \<and> d \<le> days_in_month y m
               then Inr (PyStr (four_digits y @ ''-'' @ two_digits m @ ''-'' @ two_digits d))
               else Inl ValueError
           | _ \<Rightarrow> Inl ValueError)
      | _ \<Rightarrow> Inl ValueError)"

definition and_then :: "py_error + 'a \<Rightarrow> ('a \<Rightarrow> py_error + 'b) \<Rightarrow> py_error + 'b" where
  "and_then r f = (case r of Inl e \<Rightarrow> Inl e | Inr x \<Rightarrow> f x)"

text \<open>
  \<open>clean_data\<close>, statement by statement. It has no handler: an exception of any
  statement leaves the function.
\<close>

definition clean_data :: "int \<Rightarrow> bet_entry list \<Rightarrow> py_error + bet_entry list" where
  "clean_data year_arg df =
     and_then (map_column (on_str (\<lambda>s. Inr (PyStr (remove_spaces s)))) entry_score
                 (\<lambda>v e. e\<lparr>entry_score := v\<rparr>) df) (\<lambda>df1.
     and_then (map_column (on_str (\<lambda>s. Inr (PyStr (remove_spaces s)))) entry_odds
                 (\<lambda>v e. e\<lparr>entry_odds := v\<rparr>) df1) (\<lambda>df2.
     and_then (map_column (on_str (\<lambda>s. Inr (PyStr (remove_spaces s)))) entry_bet_line
                 (\<lambda>v e. e\<lparr>entry_bet_line := v\<rparr>) df2) (\<lambda>df3.
     and_then (map_column (on_str clean_odds) entry_odds
                 (\<lambda>v e. e\<lparr>entry_odds := v\<rparr>) df3) (\<lambda>df4.
     and_then (map_column (on_str (\<lambda>s. Inr (PyStr (fix_leading_zero s)))) entry_bet_line
                 (\<lambda>v e. e\<lparr>entry_bet_line := v\<rparr>) df4) (\<lambda>df5.
     and_then (map_column (on_str (\<lambda>s. Inr (PyStr (strip_ends s)))) entry_score
                 (\<lambda>v e. e\<lparr>entry_score := v\<rparr>) df5) (\<lambda>df6.
     map_column (\<lambda>c. convert_date year_arg (py_str c)) entry_date
                 (\<lambda>v e. e\<lparr>entry_date := v\<rparr>) df6))))))"

section \<open>Saving an image's candidates (image\_processor.py)\<close>

definition cell_text :: "cell \<Rightarrow> string option" where
  "cell_text c = (case c of NA \<Rightarrow> None | _ \<Rightarrow> Some (py_str c))"

text \<open>\<open>self.player_ids.get(player_name) if player_name else None\<close>.\<close>

definition player_id_of :: "(string \<times> int) list \<Rightarrow> cell \<Rightarrow> int option" where
  "player_id_of player_ids c =
     (if isna c \<or> \<not> truthy c then None
      else (case c of PyStr s \<Rightarrow> map_of player_ids s | _ \<Rightarrow> None))"

text \<open>
  \<open>UNIQUE(player_id, date, bet_type, score)\<close>: two rows collide when the four columns
  are equal and none of them is NULL.
\<close>

definition same_unique_key :: "'a ocr_bet_scheme \<Rightarrow> 'b ocr_bet_scheme \<Rightarrow> bool" where
  "same_unique_key r r' =
     (player_id r \<noteq> None \<and> date r \<noteq> None \<and> bet_type r \<noteq> None \<and> score r \<noteq> None \<and>
      player_id r = player_id r' \<and> date r = date r' \<and> bet_type r = bet_type r' \<and>
      score r = score r')"

text \<open>
  The body of the inner loop of \<open>_save_to_database\<close> for one candidate: an exception of
  \<open>float(score)\<close> or \<open>int(odds)\<close> is logged and the candidate is not saved;
  \<open>INSERT OR IGNORE\<close> drops a candidate that collides with a stored row.
\<close>

definition save_bet :: "(string \<times> int) list \<Rightarrow> bool \<Rightarrow> bet_entry \<Rightarrow> database \<Rightarrow> database" where
  "save_bet player_ids flag e db =
     (case (if isna (entry_score e) then Inr None
            else and_then (float_of_cell (entry_score e)) (\<lambda>x. Inr (Some x))) of
        Inl er \<Rightarrow> db
      | Inr sc \<Rightarrow>
     (case (if isna (entry_odds e) then Inr None
            else and_then (int_of_cell (entry_odds e)) (\<lambda>i. Inr (Some (of_int i)))) of
        Inl er \<Rightarrow> db
      | Inr od \<Rightarrow>
          let new_id = next_rowid (raw_ocr_bets_seq db) (map bet_id (raw_ocr_bets db));
              row = \<lparr>bet_id = new_id,
                     player_id = player_id_of player_ids (entry_player e),
                     bet_type = cell_text (entry_bet_type e),
                     score = sc,
                     date = cell_text (entry_date e),
                     bet_line = cell_text (entry_bet_line e),
                     odds = od,
                     image_source = entry_image_source e,
                     raw_text = entry_raw_text e,
                     read_players = entry_read_players e,
                     read_score_patterns = entry_read_score_patterns e,
                     is_processed = False, needs_review = flag, is_voided = False\<rparr>
          in if list_ex (same_unique_key row) (raw_ocr_bets db) then db
             else db\<lparr>raw_ocr_bets := raw_ocr_bets db @ [row], raw_ocr_bets_seq := new_id\<rparr>))"

text \<open>
  One group of \<open>groupby('image_source')\<close>: the flag of the image, then every candidate
  of the image with that flag.
\<close>

definition save_image ::
  "(string \<times> int) list \<Rightarrow> (cell \<Rightarrow> bool) \<Rightarrow> bet_entry list \<Rightarrow> database \<Rightarrow> database" where
  "save_image player_ids to_datetime_ok image_df db =
     (let flag = fst (image_needs_review player_ids to_datetime_ok image_df)
      in foldl (\<lambda>d e. save_bet player_ids flag e d) db image_df)"

text \<open>\<open>_save_to_database\<close>: the groups in the sorted order of the image names.\<close>

definition save_to_database ::
  "(string \<times> int) list \<Rightarrow> (cell \<Rightarrow> bool) \<Rightarrow> bet_entry list \<Rightarrow> database \<Rightarrow> database" where
  "save_to_database player_ids to_datetime_ok cleaned_entries db =
     foldl (\<lambda>d image_name.
              save_image player_ids to_datetime_ok
                (filter (\<lambda>e. entry_image_source e = image_name) cleaned_entries) d)
           db (sort (remdups (map entry_image_source cleaned_entries)))"

section \<open>Processing an image (image\_processor.py)\<close>

text \<open>
  \<open>_get_existing_data\<close>: the stored rows of the image that need no review, if there are
  any; else every stored row of the image is deleted. Foreign keys are not switched on,
  so the delete does not cascade.
\<close>

definition get_existing_data :: "string \<Rightarrow> database \<Rightarrow> raw_ocr_bet list option \<times> database" where
  "get_existing_data image_name db =
     (let df = filter (\<lambda>r. image_source r = image_name \<and> \<not> needs_review r) (raw_ocr_bets db)
      in if df \<noteq> [] then (Some df, db)
         else (None, db\<lparr>raw_ocr_bets :=
                          filter (\<lambda>r. image_source r \<noteq> image_name) (raw_ocr_bets db)\<rparr>))"

datatype image_result = Existing "raw_ocr_bet list" | Cleaned "bet_entry list" | NoResult

text \<open>
  The parameters of the extractor: the roster \<open>self.player_ids\<close>, pandas' date parser,
  the table \<open>NAME_REPLACEMENTS\<close> and the processing year.
\<close>

record extractor =
  roster :: "(string \<times> int) list"
  date_parser :: "cell \<Rightarrow> bool"
  name_replacements :: "(string \<times> string) list"
  processing_year :: int

text \<open>
  \<open>process_image\<close>, on the reading of the image (\<open>None\<close> when the OCR engine fails).
  The handler around extraction, cleaning and saving logs the exception and returns
  \<open>None\<close>.
\<close>

definition process_image ::
  "extractor \<Rightarrow> string \<Rightarrow> ocr_reading option \<Rightarrow> database \<Rightarrow> image_result \<times> database" where
  "process_image x image_name reading db =
     (case get_existing_data image_name db of
        (Some existing_data, db') \<Rightarrow> (Existing existing_data, db')
      | (None, db') \<Rightarrow>
          (case reading of
             None \<Rightarrow> (NoResult, db')
           | Some rd \<Rightarrow>
               if ocr_text rd = [] then (NoResult, db')
               else
                 (case extract_bet_data (name_replacements x) rd of
                    None \<Rightarrow> (NoResult, db')
                  | Some extracted_data \<Rightarrow>
                      if extracted_data = [] then (NoResult, db')
                      else
                        (case clean_data (processing_year x)
                                (map (with_image_source image_name) extracted_data) of
                           Inl e \<Rightarrow> (NoResult, db')
                         | Inr cleaned_entries \<Rightarrow>
                             (Cleaned cleaned_entries,
                              save_to_database (roster x) (date_parser x) cleaned_entries db')))))"

section \<open>What a cleaned frame is\<close>

text \<open>
  The relation between a row and its cleaned row, column by column: a missing cell stays
  missing; a score loses its spaces and its first and last character; odds lose their
  spaces, have the misread characters repaired and are read as an integer; a bet line
  loses its spaces and has a leading zero turned into \<open>o\<close>; a date is converted. Every
  other column is unchanged.
\<close>

definition cleaned_cell :: "(string \<Rightarrow> py_error + cell) \<Rightarrow> cell \<Rightarrow> cell \<Rightarrow> bool" where
  "cleaned_cell f c c' =
     (case c of
        NA \<Rightarrow> c' = NA
      | PyStr s \<Rightarrow> f s = Inr c'
      | PyInt i \<Rightarrow> False
      | PyFloat x \<Rightarrow> False)"

definition cleaned_entry :: "int \<Rightarrow> bet_entry \<Rightarrow> bet_entry \<Rightarrow> bool" where
  "cleaned_entry year_arg e e' =
     (cleaned_cell (\<lambda>s. Inr (PyStr (strip_ends (remove_spaces s)))) (entry_score e) (entry_score e') \<and>
      cleaned_cell (\<lambda>s. clean_odds (remove_spaces s)) (entry_odds e) (entry_odds e') \<and>
      cleaned_cell (\<lambda>s. Inr (PyStr (fix_leading_zero (remove_spaces s))))
        (entry_bet_line e) (entry_bet_line e') \<and>
      (if isna (entry_date e) then entry_date e' = NA
       else convert_date year_arg (py_str (entry_date e)) = Inr (entry_date e')) \<and>
      e' = e\<lparr>entry_score := entry_score e', entry_odds := entry_odds e',
              entry_bet_line := entry_bet_line e', entry_date := entry_date e'\<rparr>)"

text \<open>
  A reading whose second odds token starts with a character that the corrections do not
  repair, a reading with a date token that is no date, and an extractor.
\<close>

definition bad_odds_reading :: ocr_reading where
  "bad_odds_reading =
     \<lparr>ocr_text = ''1/05 Points LeBron James +25.50% o21.5 -150 Stephen Curry +30.25% u4.5 |120'',
      found_dates = [''1/05''],
      found_bet_type = Some ''Points'',
      found_score_lines = [(''+25.50%'', ''o21.5'', ''-150''), (''+30.25%'', ''u4.5'', ''|120'')],
      found_players = [''LeBron James'', ''Stephen Curry'']\<rparr>"

definition bad_date_reading :: ocr_reading where
  "bad_date_reading =
     \<lparr>ocr_text = ''13/45 Points LeBron James +25.50% o21.5 -150'',
      found_dates = [''13/45''],
      found_bet_type = Some ''Points'',
      found_score_lines = [(''+25.50%'', ''o21.5'', ''-150'')],
      found_players = [''LeBron James'']\<rparr>"

definition good_reading :: ocr_reading where
  "good_reading =
     \<lparr>ocr_text = ''1/05 Points LeBron James +25.50% o21.5 -150 Stephen Curry +30.25% u4.5 +120'',
      found_dates = [''1/05''],
      found_bet_type = Some ''Points'',
      found_score_lines = [(''+25.50%'', ''o21.5'', ''-150''), (''+30.25%'', ''u4.5'', ''+120'')],
      found_players = [''LeBron James'', ''Stephen Curry'']\<rparr>"

definition example_extractor :: extractor where
  "example_extractor =
     \<lparr>roster = example_player_ids, date_parser = any_string_ok, name_replacements = [],
      processing_year = 2025\<rparr>"

text \<open>One statement of \<open>clean_data\<close> on one row, as a relation.\<close>

definition step_rel ::
  "(string \<Rightarrow> py_error + cell) \<Rightarrow> (bet_entry \<Rightarrow> cell) \<Rightarrow> (cell \<Rightarrow> bet_entry \<Rightarrow> bet_entry) \<Rightarrow>
   bet_entry \<Rightarrow> bet_entry \<Rightarrow> bool" where
  "step_rel f col upd e e' =
     (case col e of
        NA \<Rightarrow> e' = e
      | PyStr s \<Rightarrow> (\<exists>v. f s = Inr v \<and> e' = upd v e)
      | PyInt i \<Rightarrow> False
      | PyFloat x \<Rightarrow> False)"

text \<open>The rows of a frame that belong to one image: one group of \<open>groupby\<close>.\<close>

definition group_of :: "bet_entry list \<Rightarrow> string \<Rightarrow> bet_entry list" where
  "group_of df image_name = filter (\<lambda>e. entry_image_source e = image_name) df"

section \<open>Review reconciliation (review\_handler.py)\<close>

text \<open>
  A row of the edited table: the id and the six fields that the import reads. The cells
  are what \<open>pd.read_csv\<close> makes of the file; the other columns of the table are not
  read by the import.
\<close>

record csv_row = bet_fields +
  csv_id :: int

text \<open>
  \<open>SELECT nba_api_id FROM players WHERE name = ?\<close> followed by \<open>fetchone()[0]\<close>:
  subscripting \<open>None\<close> raises \<open>TypeError\<close> when no player has that name.
\<close>

definition select_player_id :: "database \<Rightarrow> cell \<Rightarrow> py_error + int" where
  "select_player_id db c =
     (case c of
        PyStr s \<Rightarrow>
          (case filter (\<lambda>p. name p = s) (players db) of
             [] \<Rightarrow> Inl TypeError
           | p # _ \<Rightarrow> Inr (nba_api_id p))
      | _ \<Rightarrow> Inl TypeError)"

text \<open>
  The player check of \<open>ReviewHandler.bet_needs_review\<close>; its other five checks are those
  of the classifier of image\_processor.py.
\<close>

definition review_check_player :: "database \<Rightarrow> cell \<Rightarrow> py_error + string list" where
  "review_check_player db c =
     (if isna c \<or> \<not> truthy c then Inr [''Missing player name'']
      else and_then (select_player_id db c)
             (\<lambda>pid. Inr (if pid = 0 then [''Player not found: '' @ py_str c] else [])))"

definition review_bet_needs_review ::
  "database \<Rightarrow> (cell \<Rightarrow> bool) \<Rightarrow> 'a bet_fields_scheme \<Rightarrow> py_error + (bool \<times> string set)" where
  "review_bet_needs_review db to_datetime_ok e =
     and_then (review_check_player db (entry_player e))
       (\<lambda>player_reasons.
          let reasons = player_reasons @
                        check_bet_type (entry_bet_type e) @
                        check_score (entry_score e) @
                        check_bet_line (entry_bet_line e) @
                        check_odds (entry_odds e) @
                        check_date to_datetime_ok (entry_date e)
          in Inr (reasons \<noteq> [], set reasons))"

definition value_of :: "py_error + 'a \<Rightarrow> 'a option" where
  "value_of r = (case r of Inl e \<Rightarrow> None | Inr x \<Rightarrow> Some x)"

text \<open>
  What a numeric column stores when it is given the raw cell of the table: a number stays
  that number (a float that is no integer too), a numeric text becomes its number.
\<close>

definition stored_number :: "cell \<Rightarrow> rat option" where
  "stored_number c = value_of (float_of_cell c)"

text \<open>
  The \<open>UPDATE\<close> of a corrected row, which writes the raw cells \<open>bet['bet_type']\<close>,
  \<open>bet['score']\<close>, \<open>bet['bet_line']\<close> and \<open>bet['odds']\<close> of the table. It raises
  \<open>IntegrityError\<close> when the corrected row would collide with another row on
  \<open>UNIQUE(player_id, date, bet_type, score)\<close>.
\<close>

definition update_corrected :: "int \<Rightarrow> csv_row \<Rightarrow> database \<Rightarrow> py_error + database" where
  "update_corrected pid bet db =
     (let upd = (\<lambda>r. r\<lparr>needs_review := False,
                         player_id := Some pid,
                         bet_type := cell_text (entry_bet_type bet),
                         score := stored_number (entry_score bet),
                         bet_line := cell_text (entry_bet_line bet),
                         odds := stored_number (entry_odds bet)\<rparr>)
      in if list_ex (\<lambda>r. bet_id r = csv_id bet \<and>
                          list_ex (\<lambda>r'. bet_id r' \<noteq> csv_id bet \<and> same_unique_key (upd r) r')
                                  (raw_ocr_bets db))
                    (raw_ocr_bets db)
         then Inl IntegrityError
         else Inr (db\<lparr>raw_ocr_bets :=
                        map (\<lambda>r. if bet_id r = csv_id bet then upd r else r) (raw_ocr_bets db)\<rparr>))"

text \<open>
  The body of the loop over the rows of the table: every exception is caught and logged,
  and the row is skipped.
\<close>

definition review_row :: "(cell \<Rightarrow> bool) \<Rightarrow> database \<Rightarrow> csv_row \<Rightarrow> database" where
  "review_row to_datetime_ok db bet =
     (case review_bet_needs_review db to_datetime_ok bet of
        Inl e \<Rightarrow> db
      | Inr (needs_rev, reasons) \<Rightarrow>
          (case select_player_id db (entry_player bet) of
             Inl e \<Rightarrow> db
           | Inr pid \<Rightarrow>
               if \<not> needs_rev
               then (case update_corrected pid bet db of Inl e \<Rightarrow> db | Inr db' \<Rightarrow> db')
               else db))"

text \<open>
  \<open>deleted_ids = set(db_df['id']) - set(csv_df['id'])\<close> and the \<open>UPDATE\<close> that voids
  them.
\<close>

definition deleted_ids :: "database \<Rightarrow> csv_row list \<Rightarrow> int list" where
  "deleted_ids db csv_df =
     filter (\<lambda>i. i \<notin> set (map csv_id csv_df))
       (map bet_id (filter (\<lambda>r. needs_review r \<and> \<not> is_voided r) (raw_ocr_bets db)))"

definition void_deleted :: "int list \<Rightarrow> database \<Rightarrow> database" where
  "void_deleted ids db =
     (if ids = [] then db
      else db\<lparr>raw_ocr_bets :=
                map (\<lambda>r. if bet_id r \<in> set ids then r\<lparr>is_voided := True\<rparr> else r)
                    (raw_ocr_bets db)\<rparr>)"

text \<open>
  \<open>update_reviewed_entries\<close>, on the table read from the file: \<open>None\<close> when the file is
  not found. A table without rows makes the function return before anything is voided.
\<close>

definition update_reviewed_entries ::
  "(cell \<Rightarrow> bool) \<Rightarrow> csv_row list option \<Rightarrow> database \<Rightarrow> database" where
  "update_reviewed_entries to_datetime_ok csv db =
     (case csv of
        None \<Rightarrow> db
      | Some csv_df \<Rightarrow>
          if csv_df = [] then db
          else foldl (review_row to_datetime_ok)
                 (void_deleted (deleted_ids db csv_df) db) csv_df)"

text \<open>
  A database with two flagged rows of one image and one roster entry, and an edited table
  that keeps the first row, corrected, and drops the second.
\<close>

definition flagged_bet1 :: raw_ocr_bet where
  "flagged_bet1 =
     \<lparr>bet_id = 1, player_id = None, bet_type = Some ''points'', score = Some 15,
      date = Some ''2025-01-05'', bet_line = Some ''o21.5'', odds = Some (- 150),
      image_source = ''c.png'', raw_text = ''t'', read_players = None,
      read_score_patterns = None,
      is_processed = False, needs_review = True, is_voided = False\<rparr>"

definition flagged_bet2 :: raw_ocr_bet where
  "flagged_bet2 =
     \<lparr>bet_id = 2, player_id = None, bet_type = None, score = Some 30,
      date = Some ''2025-01-05'', bet_line = Some ''u4.5'', odds = Some 120,
      image_source = ''c.png'', raw_text = ''t'', read_players = None,
      read_score_patterns = None,
      is_processed = False, needs_review = True, is_voided = False\<rparr>"

definition flagged_db :: database where
  "flagged_db =
     \<lparr>raw_ocr_bets = [flagged_bet1, flagged_bet2], raw_ocr_bets_seq = 2,
      game_stats_tbl = [], game_stats_seq = 0,
      bet_results = [], unplayed_bets = [],
      players = [\<lparr>name = ''LeBron James'', nba_api_id = 2544, is_active = True\<rparr>]\<rparr>"

definition edited_table :: "csv_row list" where
  "edited_table =
     [\<lparr>entry_date = PyStr ''2025-01-05'', entry_bet_type = PyStr ''points'',
       entry_bet_line = PyStr ''o21.5'', entry_score = PyFloat 25,
       entry_odds = PyInt (- 150), entry_player = PyStr ''LeBron James'', csv_id = 1\<rparr>]"

text \<open>
  A frame condition on \<open>raw_ocr_bets\<close>: the second table has the rows of the first in
  the same places with the same ids, and every row whose id is outside \<open>S\<close> is unchanged.
\<close>

definition unchanged_outside :: "int set \<Rightarrow> raw_ocr_bet list \<Rightarrow> raw_ocr_bet list \<Rightarrow> bool" where
  "unchanged_outside S rows rows' =
     (length rows' = length rows \<and>
      (\<forall>i<length rows. bet_id (rows' ! i) = bet_id (rows ! i) \<and>
                         (bet_id (rows ! i) \<notin> S \<longrightarrow> rows' ! i = rows ! i)))"

text \<open>Both states of a connection hold rows with the ids \<open>L\<close>, in that order.\<close>

definition ids_are :: "int list \<Rightarrow> conn \<Rightarrow> bool" where
  "ids_are L c =
     (map bet_id (raw_ocr_bets (current c)) = L \<and> map bet_id (raw_ocr_bets (committed c)) = L)"

section \<open>Properties of the settlement arithmetic\<close>

lemma loss_delta_cases:
  "loss_delta od = Inr (if od \<le> 0 then od else - of_int (np_round (100 / (od / 100))))"
  by (simp add: loss_delta_def py_truediv_def)



lemma compare_result_Push:
  "compare_result s L ou = Push \<longleftrightarrow> s = L"
  by (cases ou) (auto simp: compare_result_def)


text \<open>
  \<open>_calculate_results\<close> does return whenever the stat is there, the line parses and
  starts with \<open>o\<close> or \<open>u\<close>, stat and line differ, and the odds are there.
\<close>

lemma calculate_results_returns:
  assumes "bet_type b = Some bt" "gs bt = Some s" "bet_line b = Some bl"
    "py_float (drop 1 bl) = Some L" "startswith bl CHR ''o'' \<or> startswith bl CHR ''u''"
    "s \<noteq> L" "odds b = Some od"
  shows "\<exists>result result_delta ou. calculate_results b gs = Inr (result, result_delta, s, L, ou)"
  using assms
  by (auto simp: calculate_results_def Let_def compare_result_Push loss_delta_cases)


text \<open>
  The three settlements of the specification's examples: points 25 over 21.5 at odds -150
  wins 100; points 18 loses 150; points 18 at odds 120 loses 83.
\<close>

lemma settle_example_win:
  "calculate_results
     \<lparr>bet_id = 1, player_id = Some 7, bet_type = Some ''points'', score = Some 25,
      date = Some ''2025-01-05'', bet_line = Some ''o21.5'', odds = Some (- 150)\<rparr>
     (map_of [(''points'', 25)]) = Inr (Win, 100, 25, 43 / 2, Over)"
  by code_simp

lemma settle_example_loss_negative:
  "calculate_results
     \<lparr>bet_id = 1, player_id = Some 7, bet_type = Some ''points'', score = Some 25,
      date = Some ''2025-01-05'', bet_line = Some ''o21.5'', odds = Some (- 150)\<rparr>
     (map_of [(''points'', 18)]) = Inr (Loss, - 150, 18, 43 / 2, Over)"
  by code_simp






section \<open>Properties of the settlement run\<close>

lemma calculate_results_tie:
  assumes "bet_type b = Some bt" "gs bt = Some s" "bet_line b = Some bl"
    "py_float (drop 1 bl) = Some s"
  shows "calculate_results b gs = Inl ValueError"
  using assms by (simp add: calculate_results_def Let_def compare_result_Push)

lemma calculate_results_not_Push:
  "calculate_results b gs = Inr (result, rest) \<Longrightarrow> result \<noteq> Push"
  by (auto simp: calculate_results_def Let_def split: option.splits if_splits sum.splits)

lemma push_free_commit: "push_free S c \<Longrightarrow> push_free S (commit c)"
  by (simp add: push_free_def commit_def)

lemma push_free_rollback: "push_free S c \<Longrightarrow> push_free S (rollback c)"
  by (simp add: push_free_def rollback_def)

lemma push_free_insert_into_game_stats:
  "push_free S c \<Longrightarrow> push_free S (snd (insert_into_game_stats b sl c))"
  by (auto simp: insert_into_game_stats_def push_free_def commit_def rollback_def Let_def
           split: option.splits)

lemma push_free_insert_into_unplayed_bets:
  "push_free S c \<Longrightarrow> push_free S (insert_into_unplayed_bets b c)"
  by (auto simp: insert_into_unplayed_bets_def push_free_def commit_def Let_def
           split: option.splits)

lemma push_free_mark_bet_processed:
  "push_free S c \<Longrightarrow> push_free S (mark_bet_processed b c)"
  by (simp add: mark_bet_processed_def push_free_def)

lemma push_free_insert_into_bet_results:
  assumes "push_free S c"
  shows "push_free S (snd (insert_into_bet_results b sl c))"
proof (cases "calculate_results b (stats_dict sl)")
  case (Inl e)
  then show ?thesis using assms by (simp add: insert_into_bet_results_def)
next
  case (Inr t)
  obtain result result_delta stat_result line_value ou
    where t: "t = (result, result_delta, stat_result, line_value, ou)"
    by (cases t) auto
  have np: "result \<noteq> Push"
    using Inr t calculate_results_not_Push by blast
  show ?thesis
    using assms Inr t np
    by (auto simp: insert_into_bet_results_def push_free_def commit_def rollback_def Let_def
             split: sum.splits option.splits)
qed

lemma push_free_process_bet:
  assumes "push_free S c"
  shows "push_free S (snd (process_bet api b c))"
proof (cases "get_player_game_stats api b (current c)")
  case (Inl e)
  then show ?thesis using assms by (simp add: process_bet_def)
next
  case (Inr t)
  obtain in_db r where t: "t = (in_db, r)" by (cases t) auto
  show ?thesis
  proof (cases r)
    case None
    then show ?thesis
      using assms Inr t
      by (simp add: process_bet_def push_free_mark_bet_processed
            push_free_insert_into_unplayed_bets)
  next
    case (Some sl)
    define c1 where "c1 = snd (if \<not> in_db then insert_into_game_stats b sl c else (Inr (), c))"
    have c1: "push_free S c1"
      using assms by (simp add: c1_def push_free_insert_into_game_stats)
    have c2: "push_free S (snd (insert_into_bet_results b sl c1))"
      using c1 by (rule push_free_insert_into_bet_results)
    have c3: "push_free S (mark_bet_processed b (snd (insert_into_bet_results b sl c1)))"
      using c2 by (rule push_free_mark_bet_processed)
    show ?thesis
      using Inr t Some c1 c2 c3
      by (auto simp: process_bet_def c1_def split: prod.splits sum.splits if_splits)
  qed
qed

lemma push_free_process_bets_loop:
  "push_free S c \<Longrightarrow> push_free S (snd (process_bets_loop api bs c))"
proof (induction bs arbitrary: c)
  case Nil
  then show ?case by simp
next
  case (Cons b bs)
  have "push_free S (snd (process_bet api b c))"
    using Cons.prems by (rule push_free_process_bet)
  then show ?case
    using Cons.IH by (auto split: prod.splits option.splits)
qed

lemma push_free_process_new_bets:
  assumes "push_free S c"
  shows "push_free S (snd (process_new_bets api c))"
proof -
  have "push_free S (snd (process_unprocessed_bets api c))"
    using assms by (simp add: process_unprocessed_bets_def push_free_process_bets_loop)
  then show ?thesis
    by (auto simp: process_new_bets_def push_free_commit push_free_rollback
             split: prod.splits option.splits)
qed

lemma push_free_init:
  "push_free (set (bet_results (current c)) \<union> set (bet_results (committed c))) c"
  by (simp add: push_free_def)

text \<open>
  C2. When the stat value of a candidate equals the line value of its bet line,
  \<open>_calculate_results\<close> raises \<open>ValueError\<close>, and \<open>insert_into_bet_results\<close> raises it
  on and leaves the connection as it was: no row is written. And after any run of
  \<open>process_new_bets\<close>, whatever the stats service answers, every row of \<open>bet_results\<close>
  that was not there before the run, visible or committed, has a result other than Push.
\<close>

theorem push_is_raised_never_persisted:
  "(bet_type b = Some bt \<and> stats_dict sl bt = Some s \<and> bet_line b = Some bl \<and>
      py_float (drop 1 bl) = Some s \<longrightarrow>
        calculate_results b (stats_dict sl) = Inl ValueError \<and>
        insert_into_bet_results b sl c = (Inl ValueError, c)) \<and>
   push_free (set (bet_results (current c)) \<union> set (bet_results (committed c)))
     (snd (process_new_bets api c))"
proof -
  have "push_free (set (bet_results (current c)) \<union> set (bet_results (committed c)))
     (snd (process_new_bets api c))"
    using push_free_init by (rule push_free_process_new_bets)
  then show ?thesis
    by (auto simp: insert_into_bet_results_def calculate_results_tie)
qed

theorem push_is_raised_never_persisted_witness:
  "bet_type (ocr_bet.truncate example_bet1) = Some ''points'' \<and>
   stats_dict tie_line ''points'' = Some (43 / 2) \<and>
   bet_line (ocr_bet.truncate example_bet1) = Some ''o21.5'' \<and>
   py_float (drop 1 ''o21.5'') = Some (43 / 2) \<and>
   calculate_results (ocr_bet.truncate example_bet1) (stats_dict tie_line) = Inl ValueError \<and>
   insert_into_bet_results (ocr_bet.truncate example_bet1) tie_line example_conn =
     (Inl ValueError, example_conn) \<and>
   push_free {} (snd (process_new_bets example_api example_conn))"
proof -
  have h1: "bet_type (ocr_bet.truncate example_bet1) = Some ''points''"
    by code_simp
  have h2: "stats_dict tie_line ''points'' = Some (43 / 2)"
    by code_simp
  have h3: "bet_line (ocr_bet.truncate example_bet1) = Some ''o21.5''"
    by code_simp
  have h4: "py_float (drop 1 ''o21.5'') = Some (43 / 2)"
    by code_simp
  have e: "set (bet_results (current example_conn)) \<union> set (bet_results (committed example_conn)) = {}"
    by (simp add: example_conn_def example_db_def)
  show ?thesis
    using push_is_raised_never_persisted
      [of "ocr_bet.truncate example_bet1" "''points''" tie_line "43 / 2" "''o21.5''"
          example_conn example_api]
      h1 h2 h3 h4 e
    by simp
qed

text \<open>
  The run of C3's failing input: two unprocessed candidates, the stats service answers the
  first and fails with a transport error on the second. \<open>quit()\<close> raises \<open>SystemExit\<close>,
  which no handler of the run catches: the run neither rolls back nor returns
  \<open>False\<close>. The \<open>game_stats\<close> row and the \<open>bet_results\<close> row of the first candidate
  were committed by their inserts and stay in the database, while its \<open>is_processed\<close>
  flag, set after the last commit, is lost.
\<close>

theorem transport_failure_keeps_committed_writes:
  "fst (process_new_bets example_api example_conn) = Propagated SystemExit \<and>
   map gs_player_id (game_stats_tbl (persisted (process_new_bets example_api example_conn))) = [7] \<and>
   map br_raw_bet_id (bet_results (persisted (process_new_bets example_api example_conn))) = [1] \<and>
   map br_result (bet_results (persisted (process_new_bets example_api example_conn))) = [Win] \<and>
   map is_processed (raw_ocr_bets (persisted (process_new_bets example_api example_conn)))
     = [False, False] \<and>
   game_stats_tbl (committed example_conn) = [] \<and>
   bet_results (committed example_conn) = []"
  by code_simp

section \<open>Properties of the review classifier\<close>
















section \<open>Properties of the extractor\<close>

lemma column_or_na_nth:
  "i < n \<Longrightarrow> column_or_na xs n ! i = (if length xs = n then PyStr (xs ! i) else NA)"
  by (simp add: column_or_na_def)

lemma pad_with_na_nth:
  "i < n \<Longrightarrow> length xs \<le> n \<Longrightarrow>
   pad_with_na xs n ! i = (if i < length xs then Some (xs ! i) else None)"
  by (auto simp: pad_with_na_def nth_append)

text \<open>
  C5, as amended. When \<open>_extract_bet_data\<close> returns, it returns as many records as the
  longer of the player list and the list of score/line/odds triples. A field list of that
  length keeps every extracted value at its position; a shorter field list is replaced by
  missing values at every position, the extracted ones included. Only the two diagnostic
  entries keep the extracted values and are padded with missing values past their end.
  So a field of record \<open>i\<close> is either missing or the value extracted at position \<open>i\<close>.
\<close>

theorem extract_bet_data_arity:
  assumes "extract_bet_data nr rd = Some ds"
  shows "length ds = max (length (found_players rd)) (length (found_score_lines rd)) \<and>
    (\<forall>i < length ds.
       entry_player (ds ! i) =
         (if length (found_players rd) = length ds
          then PyStr (get_or_same nr (found_players rd ! i)) else NA) \<and>
       entry_score (ds ! i) =
         (if length (found_score_lines rd) = length ds
          then PyStr (fst (found_score_lines rd ! i)) else NA) \<and>
       entry_bet_line (ds ! i) =
         (if length (found_score_lines rd) = length ds
          then PyStr (fst (snd (found_score_lines rd ! i))) else NA) \<and>
       entry_odds (ds ! i) =
         (if length (found_score_lines rd) = length ds
          then PyStr (snd (snd (found_score_lines rd ! i))) else NA) \<and>
       entry_read_players (ds ! i) =
         (if i < length (found_players rd)
          then Some (get_or_same nr (found_players rd ! i)) else None) \<and>
       entry_read_score_patterns (ds ! i) =
         (if i < length (found_score_lines rd)
          then Some (found_score_lines rd ! i) else None))"
proof -
  define m where "m = length (found_players rd)"
  define n where "n = length (found_score_lines rd)"
  define k where "k = max m n"
  from assms obtain date0 rest where dates: "found_dates rd = date0 # rest"
    by (auto simp: extract_bet_data_def split: list.splits)
  from assms dates have ne: "found_score_lines rd \<noteq> []"
    by (auto simp: extract_bet_data_def Let_def split: if_splits)
  have mx: "max (max (max m n) n) n = k"
    by (simp add: k_def)
  from assms dates ne have ds: "ds = map (\<lambda>i. \<lparr>entry_date = PyStr date0,
       entry_bet_type = (case found_bet_type rd of None \<Rightarrow> NA
                         | Some t \<Rightarrow> PyStr (get_or_same TYPE_REPLACEMENTS t)),
       entry_bet_line = column_or_na (map (\<lambda>item. fst (snd item)) (found_score_lines rd)) k ! i,
       entry_score = column_or_na (map (\<lambda>item. fst item) (found_score_lines rd)) k ! i,
       entry_odds = column_or_na (map (\<lambda>item. snd (snd item)) (found_score_lines rd)) k ! i,
       entry_player = column_or_na (map (get_or_same nr) (found_players rd)) k ! i,
       entry_read_score_patterns = pad_with_na (found_score_lines rd) k ! i,
       entry_read_players = pad_with_na (map (get_or_same nr) (found_players rd)) k ! i,
       entry_raw_text = ocr_text rd\<rparr>) [0..<k]"
    using mx by (simp add: extract_bet_data_def Let_def m_def n_def)
  have len: "length ds = k"
    by (simp add: ds)
  have "\<forall>i<k. entry_player (ds ! i) =
         (if m = k then PyStr (get_or_same nr (found_players rd ! i)) else NA)"
    by (auto simp: ds column_or_na_nth m_def)
  moreover have "\<forall>i<k. entry_score (ds ! i) =
         (if n = k then PyStr (fst (found_score_lines rd ! i)) else NA)"
    by (auto simp: ds column_or_na_nth n_def)
  moreover have "\<forall>i<k. entry_bet_line (ds ! i) =
         (if n = k then PyStr (fst (snd (found_score_lines rd ! i))) else NA)"
    by (auto simp: ds column_or_na_nth n_def)
  moreover have "\<forall>i<k. entry_odds (ds ! i) =
         (if n = k then PyStr (snd (snd (found_score_lines rd ! i))) else NA)"
    by (auto simp: ds column_or_na_nth n_def)
  moreover have "\<forall>i<k. entry_read_players (ds ! i) =
         (if i < m then Some (get_or_same nr (found_players rd ! i)) else None)"
    by (auto simp: ds pad_with_na_nth m_def k_def)
  moreover have "\<forall>i<k. entry_read_score_patterns (ds ! i) =
         (if i < n then Some (found_score_lines rd ! i) else None)"
    by (auto simp: ds pad_with_na_nth n_def k_def)
  ultimately show ?thesis
    using len by (simp add: m_def n_def k_def)
qed

theorem extract_bet_data_arity_witness:
  "extract_bet_data [] example_reading \<noteq> None \<and>
   length (the (extract_bet_data [] example_reading)) = 2 \<and>
   entry_player (the (extract_bet_data [] example_reading) ! 0) = NA \<and>
   entry_score (the (extract_bet_data [] example_reading) ! 1) = PyStr ''+30.25%'' \<and>
   entry_read_players (the (extract_bet_data [] example_reading) ! 0) = Some ''LeBron James'' \<and>
   entry_read_players (the (extract_bet_data [] example_reading) ! 1) = None"
proof -
  obtain ds where ds: "extract_bet_data [] example_reading = Some ds"
    by (simp add: extract_bet_data_def example_reading_def Let_def)
  have p: "found_players example_reading = [''LeBron James'']"
    by (simp add: example_reading_def)
  have s: "found_score_lines example_reading =
      [(''+25.50%'', ''o21.5'', ''-150''), (''+30.25%'', ''u4.5'', ''+120'')]"
    by (simp add: example_reading_def)
  have g: "get_or_same [] ''LeBron James'' = ''LeBron James''"
    by (simp add: get_or_same_def)
  from extract_bet_data_arity [OF ds] have len: "length ds = 2"
    by (simp add: p s)
  from extract_bet_data_arity [OF ds] len
  have "entry_player (ds ! 0) = NA" "entry_score (ds ! 1) = PyStr ''+30.25%''"
    "entry_read_players (ds ! 0) = Some ''LeBron James''" "entry_read_players (ds ! 1) = None"
    by (simp_all add: p s g)
  then show ?thesis
    using ds len by simp
qed

text \<open>
  C5, as stated, fails when one player and two triples are found: the extracted player is
  not kept at position 0, the whole player column is missing.
\<close>

theorem extract_bet_data_padding_counterexample:
  "map entry_player (the (extract_bet_data [] example_reading)) = [NA, NA] \<and>
   found_players example_reading = [''LeBron James''] \<and>
   entry_player (the (extract_bet_data [] example_reading) ! 0) \<noteq> PyStr ''LeBron James''"
  by code_simp
section \<open>Properties of the field normalizer\<close>

lemma map_result_Inr:
  "map_result f xs = Inr ys \<Longrightarrow> list_all2 (\<lambda>x y. f x = Inr y) xs ys"
  by (induction xs arbitrary: ys) (auto split: sum.splits)

lemma map_column_Inr:
  assumes "map_column f col upd df = Inr df'"
  shows "list_all2 (\<lambda>e e'. if isna (col e) then e' = e
                             else (\<exists>v. f (col e) = Inr v \<and> e' = upd v e)) df df'"
proof -
  from assms have "list_all2 (\<lambda>e e'. (if isna (col e) then Inr e
        else (case f (col e) of Inl er \<Rightarrow> Inl er | Inr v \<Rightarrow> Inr (upd v e))) = Inr e') df df'"
    unfolding map_column_def by (rule map_result_Inr)
  then show ?thesis
    by (rule list_all2_mono) (auto split: if_splits sum.splits)
qed

lemma map_column_on_str:
  assumes "map_column (on_str f) col upd df = Inr df'"
  shows "list_all2 (step_rel f col upd) df df'"
  using map_column_Inr [OF assms]
  by (rule list_all2_mono) (auto simp: step_rel_def on_str_def isna_def split: cell.splits if_splits)

lemma clean_steps:
  assumes s1: "step_rel (\<lambda>s. Inr (PyStr (remove_spaces s))) entry_score (\<lambda>v e. e\<lparr>entry_score := v\<rparr>) e e1"
    and s2: "step_rel (\<lambda>s. Inr (PyStr (remove_spaces s))) entry_odds (\<lambda>v e. e\<lparr>entry_odds := v\<rparr>) e1 e2"
    and s3: "step_rel (\<lambda>s. Inr (PyStr (remove_spaces s))) entry_bet_line (\<lambda>v e. e\<lparr>entry_bet_line := v\<rparr>) e2 e3"
    and s4: "step_rel clean_odds entry_odds (\<lambda>v e. e\<lparr>entry_odds := v\<rparr>) e3 e4"
    and s5: "step_rel (\<lambda>s. Inr (PyStr (fix_leading_zero s))) entry_bet_line (\<lambda>v e. e\<lparr>entry_bet_line := v\<rparr>) e4 e5"
    and s6: "step_rel (\<lambda>s. Inr (PyStr (strip_ends s))) entry_score (\<lambda>v e. e\<lparr>entry_score := v\<rparr>) e5 e6"
    and s7: "if isna (entry_date e6) then e7 = e6
             else (\<exists>v. convert_date y (py_str (entry_date e6)) = Inr v \<and> e7 = e6\<lparr>entry_date := v\<rparr>)"
  shows "cleaned_entry y e e7"
proof -
  have a: "cleaned_cell (\<lambda>s. Inr (PyStr (strip_ends (remove_spaces s)))) (entry_score e) (entry_score e7)"
    using s1 s2 s3 s4 s5 s6 s7
    by (cases "entry_score e")
       (auto simp: step_rel_def cleaned_cell_def split: cell.splits if_splits)
  have b: "cleaned_cell (\<lambda>s. clean_odds (remove_spaces s)) (entry_odds e) (entry_odds e7)"
    using s1 s2 s3 s4 s5 s6 s7
    by (cases "entry_odds e")
       (auto simp: step_rel_def cleaned_cell_def split: cell.splits if_splits)
  have c: "cleaned_cell (\<lambda>s. Inr (PyStr (fix_leading_zero (remove_spaces s))))
        (entry_bet_line e) (entry_bet_line e7)"
    using s1 s2 s3 s4 s5 s6 s7
    by (cases "entry_bet_line e")
       (auto simp: step_rel_def cleaned_cell_def split: cell.splits if_splits)
  have d: "if isna (entry_date e) then entry_date e7 = NA
       else convert_date y (py_str (entry_date e)) = Inr (entry_date e7)"
    using s1 s2 s3 s4 s5 s6 s7
    by (auto simp: step_rel_def isna_def split: cell.splits if_splits)
  have f: "e7 = e\<lparr>entry_score := entry_score e7, entry_odds := entry_odds e7,
              entry_bet_line := entry_bet_line e7, entry_date := entry_date e7\<rparr>"
    using s1 s2 s3 s4 s5 s6 s7
    by (auto simp: step_rel_def split: cell.splits if_splits)
  show ?thesis
    unfolding cleaned_entry_def using a b c d f by blast
qed


lemma and_then_Inr: "and_then r f = Inr y \<longleftrightarrow> (\<exists>x. r = Inr x \<and> f x = Inr y)"
  by (cases r) (auto simp: and_then_def)

lemma clean_data_Inr:
  assumes "clean_data y df = Inr df'"
  shows "list_all2 (cleaned_entry y) df df'"
proof -
  from assms obtain df1 df2 df3 df4 df5 df6 where
    r1: "map_column (on_str (\<lambda>s. Inr (PyStr (remove_spaces s)))) entry_score
           (\<lambda>v e. e\<lparr>entry_score := v\<rparr>) df = Inr df1" and
    r2: "map_column (on_str (\<lambda>s. Inr (PyStr (remove_spaces s)))) entry_odds
           (\<lambda>v e. e\<lparr>entry_odds := v\<rparr>) df1 = Inr df2" and
    r3: "map_column (on_str (\<lambda>s. Inr (PyStr (remove_spaces s)))) entry_bet_line
           (\<lambda>v e. e\<lparr>entry_bet_line := v\<rparr>) df2 = Inr df3" and
    r4: "map_column (on_str clean_odds) entry_odds (\<lambda>v e. e\<lparr>entry_odds := v\<rparr>) df3 = Inr df4" and
    r5: "map_column (on_str (\<lambda>s. Inr (PyStr (fix_leading_zero s)))) entry_bet_line
           (\<lambda>v e. e\<lparr>entry_bet_line := v\<rparr>) df4 = Inr df5" and
    r6: "map_column (on_str (\<lambda>s. Inr (PyStr (strip_ends s)))) entry_score
           (\<lambda>v e. e\<lparr>entry_score := v\<rparr>) df5 = Inr df6" and
    r7: "map_column (\<lambda>c. convert_date y (py_str c)) entry_date
           (\<lambda>v e. e\<lparr>entry_date := v\<rparr>) df6 = Inr df'"
    unfolding clean_data_def and_then_Inr by blast
  note l1 = map_column_on_str [OF r1] and l2 = map_column_on_str [OF r2]
    and l3 = map_column_on_str [OF r3] and l4 = map_column_on_str [OF r4]
    and l5 = map_column_on_str [OF r5] and l6 = map_column_on_str [OF r6]
    and l7 = map_column_Inr [OF r7]
  have len: "length df1 = length df" "length df2 = length df" "length df3 = length df"
    "length df4 = length df" "length df5 = length df" "length df6 = length df"
    "length df' = length df"
    using l1 l2 l3 l4 l5 l6 l7 by (simp_all add: list_all2_lengthD)
  show ?thesis
  proof (rule list_all2_all_nthI)
    show "length df = length df'" using len by simp
  next
    fix i assume i: "i < length df"
    show "cleaned_entry y (df ! i) (df' ! i)"
    proof (rule clean_steps)
      show "step_rel (\<lambda>s. Inr (PyStr (remove_spaces s))) entry_score (\<lambda>v e. e\<lparr>entry_score := v\<rparr>)
              (df ! i) (df1 ! i)"
        using l1 i by (simp add: list_all2_conv_all_nth)
      show "step_rel (\<lambda>s. Inr (PyStr (remove_spaces s))) entry_odds (\<lambda>v e. e\<lparr>entry_odds := v\<rparr>)
              (df1 ! i) (df2 ! i)"
        using l2 i len by (simp add: list_all2_conv_all_nth)
      show "step_rel (\<lambda>s. Inr (PyStr (remove_spaces s))) entry_bet_line
              (\<lambda>v e. e\<lparr>entry_bet_line := v\<rparr>) (df2 ! i) (df3 ! i)"
        using l3 i len by (simp add: list_all2_conv_all_nth)
      show "step_rel clean_odds entry_odds (\<lambda>v e. e\<lparr>entry_odds := v\<rparr>) (df3 ! i) (df4 ! i)"
        using l4 i len by (simp add: list_all2_conv_all_nth)
      show "step_rel (\<lambda>s. Inr (PyStr (fix_leading_zero s))) entry_bet_line
              (\<lambda>v e. e\<lparr>entry_bet_line := v\<rparr>) (df4 ! i) (df5 ! i)"
        using l5 i len by (simp add: list_all2_conv_all_nth)
      show "step_rel (\<lambda>s. Inr (PyStr (strip_ends s))) entry_score (\<lambda>v e. e\<lparr>entry_score := v\<rparr>)
              (df5 ! i) (df6 ! i)"
        using l6 i len by (simp add: list_all2_conv_all_nth)
      show "if isna (entry_date (df6 ! i)) then df' ! i = df6 ! i
            else (\<exists>v. convert_date y (py_str (entry_date (df6 ! i))) = Inr v \<and>
                      df' ! i = (df6 ! i)\<lparr>entry_date := v\<rparr>)"
        using l7 i len by (simp add: list_all2_conv_all_nth)
    qed
  qed
qed

lemma clean_data_bad_odds:
  assumes "e \<in> set df" "entry_odds e = PyStr s" "clean_odds (remove_spaces s) = Inl er"
  shows "\<exists>er'. clean_data y df = Inl er'"
proof (cases "clean_data y df")
  case (Inl a)
  then show ?thesis by blast
next
  case (Inr df')
  from assms(1) obtain i where i: "i < length df" "df ! i = e"
    by (auto simp: in_set_conv_nth)
  from clean_data_Inr [OF Inr] i have "cleaned_entry y e (df' ! i)"
    by (auto simp: list_all2_conv_all_nth)
  then have False
    using assms(2,3) by (simp add: cleaned_entry_def cleaned_cell_def)
  then show ?thesis ..
qed

lemma clean_data_bad_date:
  assumes "e \<in> set df" "entry_date e \<noteq> NA" "convert_date y (py_str (entry_date e)) = Inl er"
  shows "\<exists>er'. clean_data y df = Inl er'"
proof (cases "clean_data y df")
  case (Inl a)
  then show ?thesis by blast
next
  case (Inr df')
  from assms(1) obtain i where i: "i < length df" "df ! i = e"
    by (auto simp: in_set_conv_nth)
  from clean_data_Inr [OF Inr] i have "cleaned_entry y e (df' ! i)"
    by (auto simp: list_all2_conv_all_nth)
  then have False
    using assms(2,3) by (simp add: cleaned_entry_def isna_def)
  then show ?thesis ..
qed

lemma process_image_clean_failure:
  assumes "fst (get_existing_data nm db) = None" "ocr_text rd \<noteq> []"
    "extract_bet_data (name_replacements x) rd = Some ds"
    "clean_data (processing_year x) (map (with_image_source nm) ds) = Inl er"
  shows "process_image x nm (Some rd) db = (NoResult, snd (get_existing_data nm db))"
  using assms by (cases "get_existing_data nm db") (simp add: process_image_def)

text \<open>
  C9, as amended. \<open>clean_data\<close> skips missing cells and leaves them missing, and when it
  returns, every row is the cleaned form of the row it came from, all other columns
  kept. But a conversion failure is not confined to its field: when the odds of any row
  cannot be read as an integer after the corrections, or the date of any row fails the
  conversion, \<open>clean_data\<close> raises; \<open>process_image\<close> then returns no result for the
  image and saves none of its records.
\<close>

theorem clean_data_failure_aborts_image:
  "(clean_data y df = Inr df' \<longrightarrow> list_all2 (cleaned_entry y) df df') \<and>
   (e \<in> set df \<and> entry_odds e = PyStr s \<and> clean_odds (remove_spaces s) = Inl er \<longrightarrow>
      (\<exists>er'. clean_data y df = Inl er')) \<and>
   (e \<in> set df \<and> entry_date e \<noteq> NA \<and> convert_date y (py_str (entry_date e)) = Inl er \<longrightarrow>
      (\<exists>er'. clean_data y df = Inl er')) \<and>
   (fst (get_existing_data nm db) = None \<and> ocr_text rd \<noteq> [] \<and>
    extract_bet_data (name_replacements x) rd = Some ds \<and>
    clean_data (processing_year x) (map (with_image_source nm) ds) = Inl er \<longrightarrow>
      process_image x nm (Some rd) db = (NoResult, snd (get_existing_data nm db)))"
  using clean_data_Inr clean_data_bad_odds clean_data_bad_date process_image_clean_failure
  by blast

theorem clean_data_failure_aborts_image_witness:
  "clean_data 2025 (map (with_image_source ''b.png'') (the (extract_bet_data [] bad_odds_reading)))
     = Inl ValueError \<and>
   process_image example_extractor ''b.png'' (Some bad_odds_reading) example_db
     = (NoResult, example_db) \<and>
   clean_data 2025 (map (with_image_source ''b.png'') (the (extract_bet_data [] bad_date_reading)))
     = Inl ValueError \<and>
   map entry_odds (projr (clean_data 2025
      (map (with_image_source ''b.png'') (the (extract_bet_data [] good_reading)))))
     = [PyInt (- 150), PyInt 120]"
proof -
  let ?bad = "map (with_image_source ''b.png'') (the (extract_bet_data [] bad_odds_reading))"
  let ?e = "?bad ! 1"
  have ds: "extract_bet_data (name_replacements example_extractor) bad_odds_reading
      = Some (the (extract_bet_data [] bad_odds_reading))"
    by code_simp
  have h1: "?e \<in> set ?bad" by code_simp
  have h2: "entry_odds ?e = PyStr ''|120''" by code_simp
  have h3: "clean_odds (remove_spaces ''|120'') = Inl ValueError" by code_simp
  have y: "processing_year example_extractor = 2025" by code_simp
  have g: "fst (get_existing_data ''b.png'' example_db) = None" by code_simp
  have g2: "snd (get_existing_data ''b.png'' example_db) = example_db" by code_simp
  have t: "ocr_text bad_odds_reading \<noteq> []" by code_simp
  note inst1 = clean_data_failure_aborts_image
    [where y = "2025" and df = "?bad" and e = "?e" and s = "''|120''" and er = ValueError
       and nm = "''b.png''" and db = example_db and rd = bad_odds_reading
       and x = example_extractor and ds = "the (extract_bet_data [] bad_odds_reading)"
       and df' = "[]"]
  from inst1 h1 h2 h3 obtain er' where er': "clean_data 2025 ?bad = Inl er'"
    by blast
  have v: "clean_data 2025 ?bad = Inl ValueError" by code_simp
  from inst1 v ds y g g2 t
  have p: "process_image example_extractor ''b.png'' (Some bad_odds_reading) example_db
     = (NoResult, example_db)"
    by simp
  let ?bd = "map (with_image_source ''b.png'') (the (extract_bet_data [] bad_date_reading))"
  have d1: "?bd ! 0 \<in> set ?bd" by code_simp
  have d2: "entry_date (?bd ! 0) \<noteq> NA" by code_simp
  have d3: "convert_date 2025 (py_str (entry_date (?bd ! 0))) = Inl ValueError" by code_simp
  from clean_data_failure_aborts_image
    [where y = "2025" and df = "?bd" and e = "?bd ! 0" and s = "''|120''" and er = ValueError
       and nm = "''b.png''" and db = example_db and rd = bad_date_reading
       and x = example_extractor and ds = "the (extract_bet_data [] bad_date_reading)"
       and df' = "[]"] d1 d2 d3
  obtain er'' where "clean_data 2025 ?bd = Inl er''"
    by blast
  have v2: "clean_data 2025 ?bd = Inl ValueError" by code_simp
  let ?gd = "map (with_image_source ''b.png'') (the (extract_bet_data [] good_reading))"
  have v3: "map entry_odds (projr (clean_data 2025 ?gd)) = [PyInt (- 150), PyInt 120]"
    by code_simp
  have ok: "clean_data 2025 ?gd = Inr (projr (clean_data 2025 ?gd))"
    by code_simp
  from clean_data_failure_aborts_image
    [where y = "2025" and df = "?gd" and e = "?bd ! 0" and s = "''|120''" and er = ValueError
       and nm = "''b.png''" and db = example_db and rd = bad_date_reading
       and x = example_extractor and ds = "the (extract_bet_data [] bad_date_reading)"
       and df' = "projr (clean_data 2025 ?gd)"] ok
  have "list_all2 (cleaned_entry 2025) ?gd (projr (clean_data 2025 ?gd))"
    by blast
  show ?thesis
    using v p v2 v3 by simp
qed

text \<open>
  C9, as stated, fails on an image with two candidates of which the second has the odds
  token \<open>|120\<close>: the token is no integer after the corrections, \<open>clean_data\<close> raises,
  and no record of the image is emitted or saved, the first candidate's neither.
\<close>

theorem clean_data_failure_counterexample:
  "map entry_odds (map (with_image_source ''b.png'') (the (extract_bet_data [] bad_odds_reading)))
     = [PyStr ''-150'', PyStr ''|120''] \<and>
   clean_data 2025 (map (with_image_source ''b.png'') (the (extract_bet_data [] bad_odds_reading)))
     = Inl ValueError \<and>
   process_image example_extractor ''b.png'' (Some bad_odds_reading) example_db
     = (NoResult, example_db)"
  by code_simp
section \<open>Properties of saving an image\<close>

lemma image_needs_review_or:
  "fst (image_needs_review ids ok df) = list_ex (\<lambda>e. fst (bet_needs_review ids ok e)) df"
  by (induction df) (auto simp: image_needs_review_def bet_needs_review_def Let_def list_ex_iff)

lemma image_needs_review_union:
  "snd (image_needs_review ids ok df) = (\<Union>e\<in>set df. snd (bet_needs_review ids ok e))"
  by (auto simp: image_needs_review_def bet_needs_review_def Let_def)

lemma save_bet_rows:
  "raw_ocr_bets (save_bet ids flag e db) = raw_ocr_bets db \<or>
   (\<exists>row. raw_ocr_bets (save_bet ids flag e db) = raw_ocr_bets db @ [row] \<and>
          needs_review row = flag \<and> image_source row = entry_image_source e)"
  by (auto simp: save_bet_def Let_def split: sum.splits if_splits)

lemma save_bet_other_tables:
  "game_stats_tbl (save_bet ids flag e db) = game_stats_tbl db \<and>
   bet_results (save_bet ids flag e db) = bet_results db \<and>
   unplayed_bets (save_bet ids flag e db) = unplayed_bets db \<and>
   players (save_bet ids flag e db) = players db"
  by (auto simp: save_bet_def Let_def split: sum.splits if_splits)

lemma save_fold_rows:
  "\<exists>new. raw_ocr_bets (foldl (\<lambda>d e. save_bet ids flag e d) db df) = raw_ocr_bets db @ new \<and>
     (\<forall>r\<in>set new. needs_review r = flag \<and> image_source r \<in> entry_image_source ` set df)"
proof (induction df arbitrary: db)
  case Nil
  then show ?case by simp
next
  case (Cons e df)
  from Cons.IH [of "save_bet ids flag e db"] obtain new where
    new: "raw_ocr_bets (foldl (\<lambda>d e. save_bet ids flag e d) (save_bet ids flag e db) df)
            = raw_ocr_bets (save_bet ids flag e db) @ new"
    "\<forall>r\<in>set new. needs_review r = flag \<and> image_source r \<in> entry_image_source ` set df"
    by blast
  from save_bet_rows [of ids flag e db] show ?case
  proof
    assume "raw_ocr_bets (save_bet ids flag e db) = raw_ocr_bets db"
    then show ?thesis using new by auto
  next
    assume "\<exists>row. raw_ocr_bets (save_bet ids flag e db) = raw_ocr_bets db @ [row] \<and>
          needs_review row = flag \<and> image_source row = entry_image_source e"
    then obtain row where row: "raw_ocr_bets (save_bet ids flag e db) = raw_ocr_bets db @ [row]"
      "needs_review row = flag" "image_source row = entry_image_source e"
      by blast
    have "raw_ocr_bets (foldl (\<lambda>d e. save_bet ids flag e d) db (e # df))
            = raw_ocr_bets db @ (row # new)"
      using new(1) row(1) by simp
    moreover have "\<forall>r\<in>set (row # new). needs_review r = flag \<and>
        image_source r \<in> entry_image_source ` set (e # df)"
      using new(2) row(2,3) by auto
    ultimately show ?thesis by blast
  qed
qed

lemma save_image_rows:
  "\<exists>new. raw_ocr_bets (save_image ids ok df db) = raw_ocr_bets db @ new \<and>
     (\<forall>r\<in>set new. needs_review r = fst (image_needs_review ids ok df) \<and>
                   image_source r \<in> entry_image_source ` set df)"
  unfolding save_image_def Let_def by (rule save_fold_rows)

lemma save_groups_rows:
  "\<exists>new. raw_ocr_bets (foldl (\<lambda>d nm. save_image ids ok (group_of ce nm) d) db ns)
            = raw_ocr_bets db @ new \<and>
     (\<forall>r\<in>set new. needs_review r = fst (image_needs_review ids ok (group_of ce (image_source r))))"
proof (induction ns arbitrary: db)
  case Nil
  then show ?case by simp
next
  case (Cons nm ns)
  from save_image_rows [of ids ok "group_of ce nm" db] obtain new1 where
    n1: "raw_ocr_bets (save_image ids ok (group_of ce nm) db) = raw_ocr_bets db @ new1"
    "\<forall>r\<in>set new1. needs_review r = fst (image_needs_review ids ok (group_of ce nm)) \<and>
                   image_source r \<in> entry_image_source ` set (group_of ce nm)"
    by blast
  from Cons.IH [of "save_image ids ok (group_of ce nm) db"] obtain new2 where
    n2: "raw_ocr_bets (foldl (\<lambda>d nm. save_image ids ok (group_of ce nm) d)
            (save_image ids ok (group_of ce nm) db) ns)
          = raw_ocr_bets (save_image ids ok (group_of ce nm) db) @ new2"
    "\<forall>r\<in>set new2. needs_review r = fst (image_needs_review ids ok (group_of ce (image_source r)))"
    by blast
  have src: "\<forall>r\<in>set new1. image_source r = nm"
    using n1(2) by (auto simp: group_of_def)
  have "raw_ocr_bets (foldl (\<lambda>d nm. save_image ids ok (group_of ce nm) d) db (nm # ns))
          = raw_ocr_bets db @ (new1 @ new2)"
    using n1(1) n2(1) by simp
  moreover have "\<forall>r\<in>set (new1 @ new2).
      needs_review r = fst (image_needs_review ids ok (group_of ce (image_source r)))"
    using n1(2) n2(2) src by auto
  ultimately show ?case by blast
qed

lemma save_to_database_rows:
  "\<exists>new. raw_ocr_bets (save_to_database ids ok ce db) = raw_ocr_bets db @ new \<and>
     (\<forall>r\<in>set new. needs_review r = fst (image_needs_review ids ok (group_of ce (image_source r))))"
  using save_groups_rows [of ids ok ce db "sort (remdups (map entry_image_source ce))"]
  by (simp add: save_to_database_def group_of_def)

lemma with_image_source_sel: "entry_image_source (with_image_source nm d) = nm"
  by (simp add: with_image_source_def bet_dict.extend_def bet_entry.fields_def)

lemma cleaned_entry_image_source:
  assumes "cleaned_entry y e e'"
  shows "entry_image_source e' = entry_image_source e"
proof -
  from assms have "e' = e\<lparr>entry_score := entry_score e', entry_odds := entry_odds e',
              entry_bet_line := entry_bet_line e', entry_date := entry_date e'\<rparr>"
    by (simp add: cleaned_entry_def)
  then have "entry_image_source e' = entry_image_source (e\<lparr>entry_score := entry_score e',
      entry_odds := entry_odds e', entry_bet_line := entry_bet_line e', entry_date := entry_date e'\<rparr>)"
    by (rule arg_cong)
  then show ?thesis by simp
qed

lemma clean_data_image_source:
  assumes "clean_data y (map (with_image_source nm) ds) = Inr ce"
  shows "\<forall>e\<in>set ce. entry_image_source e = nm"
proof
  fix e assume "e \<in> set ce"
  then obtain i where i: "i < length ce" "ce ! i = e"
    by (auto simp: in_set_conv_nth)
  from clean_data_Inr [OF assms] i
  have c: "cleaned_entry y (map (with_image_source nm) ds ! i) e" and l: "i < length ds"
    by (auto simp: list_all2_conv_all_nth)
  from cleaned_entry_image_source [OF c] l show "entry_image_source e = nm"
    by (simp add: with_image_source_sel)
qed

lemma get_existing_data_None:
  assumes "get_existing_data nm db = (None, db1)"
  shows "\<forall>r\<in>set (raw_ocr_bets db1). image_source r \<noteq> nm"
  using assms by (auto simp: get_existing_data_def Let_def split: if_splits)

lemma process_image_Cleaned:
  assumes "process_image x nm reading db = (Cleaned ce, db')"
  shows "\<exists>rd ds db1. reading = Some rd \<and> get_existing_data nm db = (None, db1) \<and>
           extract_bet_data (name_replacements x) rd = Some ds \<and>
           clean_data (processing_year x) (map (with_image_source nm) ds) = Inr ce \<and>
           db' = save_to_database (roster x) (date_parser x) ce db1"
  using assms
  by (auto simp: process_image_def split: prod.splits option.splits if_splits sum.splits)

lemma process_image_flag:
  assumes "process_image x nm reading db = (Cleaned ce, db')"
  shows "\<forall>r\<in>set (raw_ocr_bets db'). image_source r = nm \<longrightarrow>
           needs_review r = fst (image_needs_review (roster x) (date_parser x) ce)"
proof -
  from process_image_Cleaned [OF assms] obtain rd ds db1 where
    g: "get_existing_data nm db = (None, db1)" and
    c: "clean_data (processing_year x) (map (with_image_source nm) ds) = Inr ce" and
    d: "db' = save_to_database (roster x) (date_parser x) ce db1"
    by blast
  from save_to_database_rows [of "roster x" "date_parser x" ce db1] d obtain new where
    new: "raw_ocr_bets db' = raw_ocr_bets db1 @ new"
      "\<forall>r\<in>set new. needs_review r =
          fst (image_needs_review (roster x) (date_parser x) (group_of ce (image_source r)))"
    by blast
  have grp: "group_of ce nm = ce"
    using clean_data_image_source [OF c] by (simp add: group_of_def)
  show ?thesis
    using new get_existing_data_None [OF g] grp by auto
qed

text \<open>
  C8. The flag of an image is the disjunction of the verdicts of its bets, and its reasons
  are the union of their reasons. Every row that \<open>_save_to_database\<close> adds carries the
  flag of the group of its image. After \<open>process_image\<close> has cleaned and saved an image,
  every stored row of that image carries the flag computed over all the bets extracted
  from the image.
\<close>

theorem image_flag_is_shared:
  "fst (image_needs_review ids ok df) = list_ex (\<lambda>e. fst (bet_needs_review ids ok e)) df \<and>
   snd (image_needs_review ids ok df) = (\<Union>e\<in>set df. snd (bet_needs_review ids ok e)) \<and>
   (\<exists>new. raw_ocr_bets (save_to_database ids ok ce db) = raw_ocr_bets db @ new \<and>
      (\<forall>r\<in>set new. needs_review r =
          fst (image_needs_review ids ok (group_of ce (image_source r))))) \<and>
   (process_image x nm reading db0 = (Cleaned ce', db') \<longrightarrow>
      (\<forall>r\<in>set (raw_ocr_bets db'). image_source r = nm \<longrightarrow>
           needs_review r = fst (image_needs_review (roster x) (date_parser x) ce')))"
  using image_needs_review_or [of ids ok df] image_needs_review_union [of ids ok df]
    save_to_database_rows [of ids ok ce db] process_image_flag [of x nm reading db0 ce' db']
  by blast

theorem image_flag_is_shared_witness:
  "process_image example_extractor ''b.png'' (Some example_reading) example_db =
     (Cleaned (projr (clean_data 2025
         (map (with_image_source ''b.png'') (the (extract_bet_data [] example_reading))))),
      snd (process_image example_extractor ''b.png'' (Some example_reading) example_db)) \<and>
   fst (image_needs_review example_player_ids any_string_ok
         (projr (clean_data 2025
            (map (with_image_source ''b.png'') (the (extract_bet_data [] example_reading)))))) \<and>
   list_all (\<lambda>r. image_source r = ''b.png'' \<longrightarrow> needs_review r)
     (raw_ocr_bets (snd (process_image example_extractor ''b.png'' (Some example_reading)
        example_db))) \<and>
   map bet_id (filter (\<lambda>r. image_source r = ''b.png'')
     (raw_ocr_bets (snd (process_image example_extractor ''b.png'' (Some example_reading)
        example_db)))) = [3, 4]"
proof -
  let ?ce = "projr (clean_data 2025
         (map (with_image_source ''b.png'') (the (extract_bet_data [] example_reading))))"
  let ?db' = "snd (process_image example_extractor ''b.png'' (Some example_reading) example_db)"
  have run: "process_image example_extractor ''b.png'' (Some example_reading) example_db =
     (Cleaned ?ce, ?db')"
    by code_simp
  have flag: "fst (image_needs_review example_player_ids any_string_ok ?ce)"
    by code_simp
  have ids: "map bet_id (filter (\<lambda>r. image_source r = ''b.png'') (raw_ocr_bets ?db')) = [3, 4]"
    by code_simp
  have x: "roster example_extractor = example_player_ids"
    "date_parser example_extractor = any_string_ok"
    by (simp_all add: example_extractor_def)
  from image_flag_is_shared
    [where x = example_extractor and nm = "''b.png''" and reading = "Some example_reading"
       and ?db0.0 = example_db and ce' = "?ce" and db' = "?db'"
       and ids = example_player_ids and ok = any_string_ok and df = "?ce" and ce = "?ce"
       and db = example_db] run x flag
  have "\<forall>r\<in>set (raw_ocr_bets ?db'). image_source r = ''b.png'' \<longrightarrow> needs_review r"
    by simp
  then show ?thesis
    using run flag ids by (simp add: list_all_iff)
qed
section \<open>Properties of the reconciliation import\<close>

lemma unchanged_outside_refl: "unchanged_outside S rows rows"
  by (simp add: unchanged_outside_def)

lemma unchanged_outside_trans:
  "unchanged_outside S a b \<Longrightarrow> unchanged_outside S b c \<Longrightarrow> unchanged_outside S a c"
  by (auto simp: unchanged_outside_def)

lemma unchanged_outside_map:
  assumes "\<And>r. bet_id (f r) = bet_id r" "\<And>r. bet_id r \<notin> S \<Longrightarrow> f r = r"
  shows "unchanged_outside S rows (map f rows)"
  using assms by (simp add: unchanged_outside_def)

lemma update_corrected_frame:
  assumes "update_corrected pid bet db = Inr db'"
  shows "unchanged_outside {csv_id bet} (raw_ocr_bets db) (raw_ocr_bets db')"
proof -
  let ?g = "\<lambda>r. if bet_id r = csv_id bet
             then r\<lparr>needs_review := False, player_id := Some pid,
                     bet_type := cell_text (entry_bet_type bet),
                     score := stored_number (entry_score bet),
                     bet_line := cell_text (entry_bet_line bet),
                     odds := stored_number (entry_odds bet)\<rparr>
             else r"
  from assms have "raw_ocr_bets db' = map ?g (raw_ocr_bets db)"
    by (auto simp: update_corrected_def Let_def split: if_splits)
  moreover have "unchanged_outside {csv_id bet} (raw_ocr_bets db) (map ?g (raw_ocr_bets db))"
    by (rule unchanged_outside_map) auto
  ultimately show ?thesis by simp
qed

lemma review_row_frame:
  "unchanged_outside {csv_id bet} (raw_ocr_bets db) (raw_ocr_bets (review_row ok db bet))"
  by (auto simp: review_row_def unchanged_outside_refl update_corrected_frame
           split: sum.splits prod.splits)

lemma unchanged_outside_mono:
  "unchanged_outside S a b \<Longrightarrow> S \<subseteq> T \<Longrightarrow> unchanged_outside T a b"
  by (auto simp: unchanged_outside_def)

lemma review_rows_frame:
  "unchanged_outside (csv_id ` set csv_df) (raw_ocr_bets db)
     (raw_ocr_bets (foldl (review_row ok) db csv_df))"
proof (induction csv_df arbitrary: db)
  case Nil
  then show ?case by (simp add: unchanged_outside_refl)
next
  case (Cons bet csv_df)
  have a: "unchanged_outside (csv_id ` set (bet # csv_df)) (raw_ocr_bets db)
      (raw_ocr_bets (review_row ok db bet))"
    by (rule unchanged_outside_mono [OF review_row_frame]) simp
  have b: "unchanged_outside (csv_id ` set (bet # csv_df)) (raw_ocr_bets (review_row ok db bet))
      (raw_ocr_bets (foldl (review_row ok) (review_row ok db bet) csv_df))"
    by (rule unchanged_outside_mono [OF Cons.IH]) auto
  show ?case
    using unchanged_outside_trans [OF a b] by simp
qed

lemma void_deleted_rows:
  "raw_ocr_bets (void_deleted ids db) =
     map (\<lambda>r. if bet_id r \<in> set ids then r\<lparr>is_voided := True\<rparr> else r) (raw_ocr_bets db)"
  by (simp add: void_deleted_def map_idI)

lemma deleted_ids_mem:
  "i \<in> set (deleted_ids db csv_df) \<longleftrightarrow>
     (\<exists>r\<in>set (raw_ocr_bets db). bet_id r = i \<and> needs_review r \<and> \<not> is_voided r) \<and>
     i \<notin> csv_id ` set csv_df"
  by (auto simp: deleted_ids_def)

text \<open>
  The path of a table with rows. When the imported table has at least one row, every row
  of \<open>raw_ocr_bets\<close> that is flagged (\<open>needs_review\<close> set, \<open>is_voided\<close> not set) and
  whose id is absent from the table is, after the import, the same row with
  \<open>is_voided\<close> set: \<open>is_processed\<close> and every other column are unchanged.
\<close>

lemma dropped_rows_are_voided:
  assumes "csv_df \<noteq> []"
    and "i < length (raw_ocr_bets db)"
    and "needs_review (raw_ocr_bets db ! i)" and "\<not> is_voided (raw_ocr_bets db ! i)"
    and "bet_id (raw_ocr_bets db ! i) \<notin> csv_id ` set csv_df"
  shows "raw_ocr_bets (update_reviewed_entries ok (Some csv_df) db) ! i =
           (raw_ocr_bets db ! i)\<lparr>is_voided := True\<rparr>"
proof -
  let ?r = "raw_ocr_bets db ! i"
  let ?db1 = "void_deleted (deleted_ids db csv_df) db"
  have mem: "bet_id ?r \<in> set (deleted_ids db csv_df)"
    using assms(2-5) by (auto simp: deleted_ids_mem)
  have v: "raw_ocr_bets ?db1 ! i = ?r\<lparr>is_voided := True\<rparr>"
    using assms(2) mem by (simp add: void_deleted_rows)
  have l: "length (raw_ocr_bets ?db1) = length (raw_ocr_bets db)"
    by (simp add: void_deleted_rows)
  have "unchanged_outside (csv_id ` set csv_df) (raw_ocr_bets ?db1)
     (raw_ocr_bets (foldl (review_row ok) ?db1 csv_df))"
    by (rule review_rows_frame)
  then have "raw_ocr_bets (foldl (review_row ok) ?db1 csv_df) ! i = raw_ocr_bets ?db1 ! i"
    using assms(2,5) l v by (simp add: unchanged_outside_def)
  then show ?thesis
    using assms(1) v by (simp add: update_reviewed_entries_def)
qed

text \<open>
  On the example: the edited table keeps row 1 and drops row 2, and the import voids
  row 2 and leaves its \<open>is_processed\<close> unset.
\<close>

lemma dropped_rows_are_voided_example:
  "edited_table \<noteq> [] \<and> (1 :: nat) < length (raw_ocr_bets flagged_db) \<and>
   needs_review (raw_ocr_bets flagged_db ! 1) \<and> \<not> is_voided (raw_ocr_bets flagged_db ! 1) \<and>
   bet_id (raw_ocr_bets flagged_db ! 1) \<notin> csv_id ` set edited_table \<and>
   raw_ocr_bets (update_reviewed_entries any_string_ok (Some edited_table) flagged_db) ! 1 =
     flagged_bet2\<lparr>is_voided := True\<rparr> \<and>
   \<not> is_processed
       (raw_ocr_bets (update_reviewed_entries any_string_ok (Some edited_table) flagged_db) ! 1)"
proof -
  have h1: "edited_table \<noteq> []"
    by code_simp
  have h2: "(1 :: nat) < length (raw_ocr_bets flagged_db)"
    by code_simp
  have r: "raw_ocr_bets flagged_db ! 1 = flagged_bet2"
    by code_simp
  have h3: "needs_review (raw_ocr_bets flagged_db ! 1)"
    by code_simp
  have h4: "\<not> is_voided (raw_ocr_bets flagged_db ! 1)"
    by code_simp
  have h5: "bet_id (raw_ocr_bets flagged_db ! 1) \<notin> csv_id ` set edited_table"
    by code_simp
  have p: "\<not> is_processed (flagged_bet2\<lparr>is_voided := True\<rparr>)"
    by code_simp
  from dropped_rows_are_voided [OF h1 h2 h3 h4 h5, of any_string_ok] r
  have v: "raw_ocr_bets (update_reviewed_entries any_string_ok (Some edited_table) flagged_db) ! 1 =
     flagged_bet2\<lparr>is_voided := True\<rparr>"
    by simp
  show ?thesis
    using h1 h2 h3 h4 h5 p v by simp
qed

text \<open>
  The path of a table without rows: the import returns the database as it was, whatever
  rows are flagged in it.
\<close>

lemma update_reviewed_entries_empty_table:
  "update_reviewed_entries ok (Some []) db = db"
  by (simp add: update_reviewed_entries_def)

text \<open>
  The corrected row holds the odds cell of the table as it is: odds \<open>0.5\<close> pass the
  check, since \<open>int(0.5)\<close> is 0, and are stored as \<open>0.5\<close>.
\<close>

lemma update_corrected_stores_raw_odds:
  "check_odds (PyFloat (1 / 2)) = [] \<and>
   map odds (raw_ocr_bets (update_reviewed_entries any_string_ok
      (Some (map (\<lambda>bet. bet\<lparr>entry_odds := PyFloat (1 / 2)\<rparr>) edited_table)) flagged_db))
     = [Some (1 / 2), Some 120] \<and>
   map needs_review (raw_ocr_bets (update_reviewed_entries any_string_ok
      (Some (map (\<lambda>bet. bet\<lparr>entry_odds := PyFloat (1 / 2)\<rparr>) edited_table)) flagged_db))
     = [False, True]"
  by code_simp

text \<open>
  C7 fails on a table whose rows were all removed. The database has the flagged rows 1
  and 2 (\<open>needs_review\<close> set, \<open>is_voided\<close> not set) and the imported table has no row, so
  both ids are absent from it. \<open>update_reviewed_entries\<close> returns at
  \<open>if csv_df.empty\<close>, before the voiding: neither row is voided and the database is as
  it was. The function's docstring says of an entry that is in the database but not in
  the table that it is marked as voided, and the path of a table with rows does so: with
  the table that keeps row 1 and drops row 2, row 2 is voided.
\<close>

theorem empty_table_voids_nothing:
  "map bet_id (raw_ocr_bets flagged_db) = [1, 2] \<and>
   map needs_review (raw_ocr_bets flagged_db) = [True, True] \<and>
   map is_voided (raw_ocr_bets flagged_db) = [False, False] \<and>
   deleted_ids flagged_db [] = [1, 2] \<and>
   update_reviewed_entries any_string_ok (Some []) flagged_db = flagged_db \<and>
   map is_voided (raw_ocr_bets (update_reviewed_entries any_string_ok (Some []) flagged_db))
     = [False, False] \<and>
   map csv_id edited_table = [1] \<and>
   map is_voided (raw_ocr_bets (update_reviewed_entries any_string_ok (Some edited_table) flagged_db))
     = [False, True] \<and>
   map is_processed (raw_ocr_bets (update_reviewed_entries any_string_ok (Some edited_table) flagged_db))
     = [False, False]"
  by code_simp

section \<open>Which operations delete candidate rows\<close>

lemma ids_are_commit: "ids_are L c \<Longrightarrow> ids_are L (commit c)"
  by (simp add: ids_are_def commit_def)

lemma ids_are_rollback: "ids_are L c \<Longrightarrow> ids_are L (rollback c)"
  by (simp add: ids_are_def rollback_def)

lemma ids_are_insert_into_game_stats:
  "ids_are L c \<Longrightarrow> ids_are L (snd (insert_into_game_stats b sl c))"
  by (auto simp: insert_into_game_stats_def ids_are_def commit_def rollback_def Let_def
           split: option.splits)

lemma ids_are_insert_into_unplayed_bets:
  "ids_are L c \<Longrightarrow> ids_are L (insert_into_unplayed_bets b c)"
  by (auto simp: insert_into_unplayed_bets_def ids_are_def commit_def Let_def
           split: option.splits)

lemma ids_are_mark_bet_processed:
  "ids_are L c \<Longrightarrow> ids_are L (mark_bet_processed b c)"
  by (simp add: mark_bet_processed_def ids_are_def o_def if_distrib [of bet_id] cong: if_cong)

lemma ids_are_insert_into_bet_results:
  "ids_are L c \<Longrightarrow> ids_are L (snd (insert_into_bet_results b sl c))"
  by (auto simp: insert_into_bet_results_def ids_are_def commit_def rollback_def Let_def
           split: sum.splits option.splits prod.splits)

lemma ids_are_process_bet:
  assumes "ids_are L c"
  shows "ids_are L (snd (process_bet api b c))"
proof (cases "get_player_game_stats api b (current c)")
  case (Inl e)
  then show ?thesis using assms by (simp add: process_bet_def)
next
  case (Inr t)
  obtain in_db r where t: "t = (in_db, r)" by (cases t) auto
  show ?thesis
  proof (cases r)
    case None
    then show ?thesis
      using assms Inr t
      by (simp add: process_bet_def ids_are_mark_bet_processed ids_are_insert_into_unplayed_bets)
  next
    case (Some sl)
    define c1 where "c1 = snd (if \<not> in_db then insert_into_game_stats b sl c else (Inr (), c))"
    have c1: "ids_are L c1"
      using assms by (simp add: c1_def ids_are_insert_into_game_stats)
    have c2: "ids_are L (snd (insert_into_bet_results b sl c1))"
      using c1 by (rule ids_are_insert_into_bet_results)
    have c3: "ids_are L (mark_bet_processed b (snd (insert_into_bet_results b sl c1)))"
      using c2 by (rule ids_are_mark_bet_processed)
    show ?thesis
      using Inr t Some c1 c2 c3
      by (auto simp: process_bet_def c1_def split: prod.splits sum.splits if_splits)
  qed
qed

lemma ids_are_process_bets_loop:
  "ids_are L c \<Longrightarrow> ids_are L (snd (process_bets_loop api bs c))"
proof (induction bs arbitrary: c)
  case Nil
  then show ?case by simp
next
  case (Cons b bs)
  have "ids_are L (snd (process_bet api b c))"
    using Cons.prems by (rule ids_are_process_bet)
  then show ?case
    using Cons.IH by (auto split: prod.splits option.splits)
qed

lemma ids_are_process_new_bets:
  assumes "ids_are L c"
  shows "ids_are L (snd (process_new_bets api c))"
proof -
  have "ids_are L (snd (process_unprocessed_bets api c))"
    using assms by (simp add: process_unprocessed_bets_def ids_are_process_bets_loop)
  then show ?thesis
    by (auto simp: process_new_bets_def ids_are_commit ids_are_rollback
             split: prod.splits option.splits)
qed

lemma unchanged_outside_ids:
  "unchanged_outside S rows rows' \<Longrightarrow> map bet_id rows' = map bet_id rows"
  by (auto simp: unchanged_outside_def list_eq_iff_nth_eq)

lemma update_reviewed_entries_ids:
  "map bet_id (raw_ocr_bets (update_reviewed_entries ok csv db)) = map bet_id (raw_ocr_bets db)"
proof (cases csv)
  case None
  then show ?thesis by (simp add: update_reviewed_entries_def)
next
  case (Some csv_df)
  let ?db1 = "void_deleted (deleted_ids db csv_df) db"
  have a: "map bet_id (raw_ocr_bets ?db1) = map bet_id (raw_ocr_bets db)"
    by (simp add: void_deleted_rows o_def if_distrib [of bet_id] cong: if_cong)
  have b: "map bet_id (raw_ocr_bets (foldl (review_row ok) ?db1 csv_df))
      = map bet_id (raw_ocr_bets ?db1)"
    using review_rows_frame by (rule unchanged_outside_ids)
  show ?thesis
    using Some a b by (simp add: update_reviewed_entries_def)
qed

lemma get_existing_data_keeps:
  assumes "r \<in> set (raw_ocr_bets db)"
    and "image_source r \<noteq> nm \<or> list_ex (\<lambda>r'. image_source r' = nm \<and> \<not> needs_review r') (raw_ocr_bets db)"
  shows "r \<in> set (raw_ocr_bets (snd (get_existing_data nm db)))"
  using assms
  by (auto simp: get_existing_data_def Let_def list_ex_iff filter_empty_conv)

lemma process_image_db:
  "snd (process_image x nm reading db) = snd (get_existing_data nm db) \<or>
   (\<exists>ce. snd (process_image x nm reading db) =
       save_to_database (roster x) (date_parser x) ce (snd (get_existing_data nm db)))"
  by (cases "get_existing_data nm db")
     (auto simp: process_image_def split: option.splits if_splits sum.splits)

lemma process_image_keeps:
  assumes "r \<in> set (raw_ocr_bets db)"
    and "image_source r \<noteq> nm \<or> list_ex (\<lambda>r'. image_source r' = nm \<and> \<not> needs_review r') (raw_ocr_bets db)"
  shows "r \<in> set (raw_ocr_bets (snd (process_image x nm reading db)))"
proof -
  have k: "r \<in> set (raw_ocr_bets (snd (get_existing_data nm db)))"
    using assms by (rule get_existing_data_keeps)
  from process_image_db [of x nm reading db] show ?thesis
  proof
    assume "snd (process_image x nm reading db) = snd (get_existing_data nm db)"
    then show ?thesis using k by simp
  next
    assume "\<exists>ce. snd (process_image x nm reading db) =
       save_to_database (roster x) (date_parser x) ce (snd (get_existing_data nm db))"
    then obtain ce where ce: "snd (process_image x nm reading db) =
       save_to_database (roster x) (date_parser x) ce (snd (get_existing_data nm db))"
      by blast
    from save_to_database_rows [of "roster x" "date_parser x" ce "snd (get_existing_data nm db)"]
    obtain new where "raw_ocr_bets (save_to_database (roster x) (date_parser x) ce
        (snd (get_existing_data nm db))) = raw_ocr_bets (snd (get_existing_data nm db)) @ new"
      by blast
    then show ?thesis using k ce by simp
  qed
qed

text \<open>
  C6, as amended. Settlement keeps the rows of \<open>raw_ocr_bets\<close>: after a run, the
  database holds rows with the same ids in the same order. So does the reconciliation
  import. Classification and saving only add rows. Extraction of an image keeps every
  row of another image, and every row of the image itself when one of its stored rows
  needs no review; when none does, \<open>_get_existing_data\<close> deletes every stored row of
  the image.
\<close>

theorem rows_deleted_only_by_reextraction:
  "(ids_are L c \<longrightarrow> map bet_id (raw_ocr_bets (persisted (process_new_bets api c))) = L) \<and>
   map bet_id (raw_ocr_bets (update_reviewed_entries ok csv db)) = map bet_id (raw_ocr_bets db) \<and>
   (r \<in> set (raw_ocr_bets db) \<and>
    (image_source r \<noteq> nm \<or>
     list_ex (\<lambda>r'. image_source r' = nm \<and> \<not> needs_review r') (raw_ocr_bets db)) \<longrightarrow>
      r \<in> set (raw_ocr_bets (snd (process_image x nm reading db)))) \<and>
   (\<not> list_ex (\<lambda>r'. image_source r' = nm \<and> \<not> needs_review r') (raw_ocr_bets db) \<longrightarrow>
      raw_ocr_bets (snd (get_existing_data nm db)) =
        filter (\<lambda>r'. image_source r' \<noteq> nm) (raw_ocr_bets db))"
proof -
  have a: "ids_are L c \<longrightarrow> map bet_id (raw_ocr_bets (persisted (process_new_bets api c))) = L"
    using ids_are_process_new_bets [of L c api] by (auto simp: persisted_def ids_are_def)
  have d: "\<not> list_ex (\<lambda>r'. image_source r' = nm \<and> \<not> needs_review r') (raw_ocr_bets db) \<longrightarrow>
      raw_ocr_bets (snd (get_existing_data nm db)) =
        filter (\<lambda>r'. image_source r' \<noteq> nm) (raw_ocr_bets db)"
    by (auto simp: get_existing_data_def Let_def list_ex_iff filter_empty_conv)
  show ?thesis
    using a d update_reviewed_entries_ids [of ok csv db] process_image_keeps [of r db nm x reading]
    by blast
qed

theorem rows_deleted_only_by_reextraction_witness:
  "ids_are [1, 2] example_conn \<and>
   map bet_id (raw_ocr_bets (persisted (process_new_bets example_api example_conn))) = [1, 2] \<and>
   example_bet1 \<in> set (raw_ocr_bets example_db) \<and> image_source example_bet1 \<noteq> ''b.png'' \<and>
   example_bet1 \<in> set (raw_ocr_bets (snd (process_image example_extractor ''b.png''
      (Some good_reading) example_db))) \<and>
   \<not> list_ex (\<lambda>r'. image_source r' = ''c.png'' \<and> \<not> needs_review r') (raw_ocr_bets flagged_db) \<and>
   raw_ocr_bets (snd (get_existing_data ''c.png'' flagged_db)) = []"
proof -
  have h1: "ids_are [1, 2] example_conn"
    by code_simp
  have h2: "example_bet1 \<in> set (raw_ocr_bets example_db)"
    by code_simp
  have h3: "image_source example_bet1 \<noteq> ''b.png''"
    by code_simp
  have h4: "\<not> list_ex (\<lambda>r'. image_source r' = ''c.png'' \<and> \<not> needs_review r')
      (raw_ocr_bets flagged_db)"
    by code_simp
  have f: "filter (\<lambda>r'. image_source r' \<noteq> ''c.png'') (raw_ocr_bets flagged_db) = []"
    by code_simp
  note inst1 = rows_deleted_only_by_reextraction
    [where L = "[1, 2]" and c = example_conn and api = example_api and ok = any_string_ok
       and csv = None and db = example_db and r = example_bet1 and nm = "''b.png''"
       and x = example_extractor and reading = "Some good_reading"]
  note inst2 = rows_deleted_only_by_reextraction
    [where L = "[1, 2]" and c = example_conn and api = example_api and ok = any_string_ok
       and csv = None and db = flagged_db and r = example_bet1 and nm = "''c.png''"
       and x = example_extractor and reading = "Some good_reading"]
  from inst1 h1 have a: "map bet_id (raw_ocr_bets (persisted (process_new_bets example_api
      example_conn))) = [1, 2]"
    by blast
  from inst1 h2 h3 have b: "example_bet1 \<in> set (raw_ocr_bets (snd (process_image
      example_extractor ''b.png'' (Some good_reading) example_db)))"
    by blast
  from inst2 h4 f have c: "raw_ocr_bets (snd (get_existing_data ''c.png'' flagged_db)) = []"
    by simp
  show ?thesis
    using h1 h2 h3 h4 a b c by blast
qed

text \<open>
  C6, as stated, fails for extraction: processing an image whose two stored rows are both
  flagged deletes the rows with the ids 1 and 2; the rows saved afterwards are new rows
  with the ids 3 and 4, and when the OCR engine fails nothing is left.
\<close>

theorem reextraction_deletes_rows_counterexample:
  "map bet_id (raw_ocr_bets flagged_db) = [1, 2] \<and>
   map bet_id (raw_ocr_bets (snd (process_image example_extractor ''c.png''
      (Some good_reading) flagged_db))) = [3, 4] \<and>
   raw_ocr_bets (snd (process_image example_extractor ''c.png'' None flagged_db)) = []"
  by code_simp

end
